theory Spec2Isabelle
  imports Main "HOL-Library.AList" "HOL-Library.Multiset" "HOL-Library.Sublist" "HOL-Library.Word"
begin

unbundle bit_operations_syntax

section \<open>The printer package of msgp: output assembly and formatting\<close>

text \<open>
  The theory embeds \<^verbatim>\<open>printer/print.go\<close>. Go strings and byte slices are byte
  sequences, here \<open>string\<close> (a list of 8-bit characters). Go errors are values of the
  datatype \<open>error\<close>; a run-time panic is a value of \<open>panic\<close>, returned on the left of a
  sum.
\<close>

datatype error = Error string

datatype panic = IndexOutOfRange int nat
  \<comment> \<open>\<^verbatim>\<open>index out of range [i] with length n\<close>\<close>

subsection \<open>dedupImports\<close>

text \<open>
  \<^verbatim>\<open>m := make(map[string]struct{})\<close> is an association list with one entry per key;
  \<^verbatim>\<open>m[k] = struct{}{}\<close> is \<open>AList.update k ()\<close>.

  Go leaves the order in which \<^verbatim>\<open>for k := range m\<close> visits the keys unspecified; every
  key is visited exactly once. \<open>range_keys\<close> makes the order an input: the list of
  choices says, at each iteration, which of the keys not yet visited comes next (a choice
  is taken modulo the number of keys left; when the choices run out the keys left are
  visited as they stand).
\<close>

function range_keys :: "nat list \<Rightarrow> 'k list \<Rightarrow> 'k list" where
  "range_keys cs [] = []"
| "range_keys [] (k # ks) = k # ks"
| "range_keys (c # cs) (k # ks) =
     (let i = c mod length (k # ks)
      in (k # ks) ! i # range_keys cs (take i (k # ks) @ drop (Suc i) (k # ks)))"
  by pat_completeness auto
termination
  by (relation "measure (\<lambda>(cs, ks). length ks)") auto

definition dedupImports :: "nat list \<Rightarrow> string list \<Rightarrow> string list" where
  "dedupImports ord imp =
     (let m = fold (\<lambda>s m. AList.update s () m) imp [];
          r = fold (\<lambda>k r. r @ [k]) (range_keys ord (map fst m)) []
      in r)"

subsection \<open>Buffers and the formatting verbs of fmt\<close>

text \<open>
  A \<^verbatim>\<open>bytes.Buffer\<close> is the string of the bytes written so far; its write operations
  append and never fail.
\<close>

definition WriteString :: "string \<Rightarrow> string \<Rightarrow> string" where
  "WriteString b s = b @ s"

definition WriteByte :: "string \<Rightarrow> char \<Rightarrow> string" where
  "WriteByte b c = b @ [c]"

definition Write :: "string \<Rightarrow> string \<Rightarrow> string" where
  "Write b p = b @ p"

fun Join :: "string list \<Rightarrow> string \<Rightarrow> string" where
  "Join [] sep = []"
| "Join [e] sep = e"
| "Join (e # es) sep = e @ sep @ Join es sep"

definition HasSuffix :: "string \<Rightarrow> string \<Rightarrow> bool" where
  "HasSuffix s suf =
     (length s \<ge> length suf \<and> drop (length s - length suf) s = suf)"

definition TrimSuffix :: "string \<Rightarrow> string \<Rightarrow> string" where
  "TrimSuffix s suf =
     (if HasSuffix s suf then take (length s - length suf) s else s)"

text \<open>
  The verb \<^verbatim>\<open>%q\<close> of fmt prints a string as \<^verbatim>\<open>strconv.Quote\<close> does. On a string of
  ASCII bytes that is: a double quote; each byte as itself when it is printable and
  neither a double quote nor a backslash, a double quote or backslash after a backslash,
  one of the escapes \<^verbatim>\<open>\a \b \f \n \r \t \v\<close>, or \<^verbatim>\<open>\x\<close> and two lower-case hexadecimal
  digits for any other control byte; a double quote. A string with a byte above 0x7F is
  decoded as UTF-8 and printed according to the Unicode tables of the Go library, which
  are not part of this development: the parameter \<open>quote_unicode\<close> stands for
  \<^verbatim>\<open>strconv.Quote\<close> on such strings.
\<close>

definition lowerhex :: string where
  "lowerhex = ''0123456789abcdef''"

definition appendEscapedByte :: "char \<Rightarrow> string" where
  "appendEscapedByte c =
     (if c = CHR 0x22 \<or> c = CHR 0x5C then [CHR 0x5C, c]
      else if (0x20::nat) \<le> of_char c \<and> of_char c < (0x7F::nat) then [c]
      else if c = CHR 0x07 then [CHR 0x5C, CHR ''a'']
      else if c = CHR 0x08 then [CHR 0x5C, CHR ''b'']
      else if c = CHR 0x0C then [CHR 0x5C, CHR ''f'']
      else if c = CHR 0x0A then [CHR 0x5C, CHR ''n'']
      else if c = CHR 0x0D then [CHR 0x5C, CHR ''r'']
      else if c = CHR 0x09 then [CHR 0x5C, CHR ''t'']
      else if c = CHR 0x0B then [CHR 0x5C, CHR ''v'']
      else [CHR 0x5C, CHR ''x'',
            lowerhex ! (of_char c div 16), lowerhex ! (of_char c mod 16)])"

definition fmt_q :: "(string \<Rightarrow> string) \<Rightarrow> string \<Rightarrow> string" where
  "fmt_q quote_unicode s =
     (if \<forall>c \<in> set s. of_char c < (0x80::nat)
      then [CHR 0x22] @ concat (map appendEscapedByte s) @ [CHR 0x22]
      else quote_unicode s)"

subsection \<open>The header writers\<close>

definition writePkgHeader :: "string \<Rightarrow> string \<Rightarrow> string" where
  "writePkgHeader b name =
     (let b = WriteString b ''package '';
          b = WriteString b name;
          b = WriteByte b CHR 0x0A;
          b = WriteString b
                ''// Code generated by github.com/algorand/msgp DO NOT EDIT.\<newline>\<newline>''
      in b)"

text \<open>
  The loop of \<^verbatim>\<open>writeImportHeader\<close>. The index expression \<^verbatim>\<open>im[len(im)-1]\<close> panics
  when the index is negative or not below the length.
\<close>

fun writeImports :: "(string \<Rightarrow> string) \<Rightarrow> string \<Rightarrow> string list \<Rightarrow> panic + string" where
  "writeImports qu b [] = Inr b"
| "writeImports qu b (im # ims) =
     (let i = int (length im) - 1
      in if i < 0 \<or> int (length im) \<le> i then Inl (IndexOutOfRange i (length im))
         else if im ! nat i = CHR 0x22
           then writeImports qu (WriteString b ([CHR 0x09] @ im @ [CHR 0x0A])) ims
           else writeImports qu (WriteString b ([CHR 0x09] @ fmt_q qu im @ [CHR 0x0A])) ims)"

definition writeImportHeader :: "(string \<Rightarrow> string) \<Rightarrow> string \<Rightarrow> string list \<Rightarrow> panic + string" where
  "writeImportHeader qu b imports =
     (case writeImports qu (WriteString b ''import (\<newline>'') imports of
        Inl p \<Rightarrow> Inl p
      | Inr b \<Rightarrow> Inr (WriteString b '')\<newline>\<newline>''))"

definition writeBuildHeader :: "string \<Rightarrow> string list \<Rightarrow> string" where
  "writeBuildHeader b buildHeaders =
     (let headers = ''//go:build '' @ Join buildHeaders '' '' @ ''\<newline>// +build ''
                    @ Join buildHeaders '' '' @ ''\<newline>\<newline>''
      in WriteString b headers)"

subsection \<open>The collaborators outside the package\<close>

text \<open>
  Storage maps a path to the bytes of the file and its permission bits
  (\<^verbatim>\<open>os.FileMode\<close>, 32 bits).
\<close>

type_synonym storage = "string \<Rightarrow> (string \<times> 32 word) option"

datatype gci_section = StandardPackage | DefaultSection | Prefix string | NewLine

record GciConfiguration =
  Sections :: "gci_section list"
  SectionSeparators :: "gci_section list"

text \<open>
  What the package takes from elsewhere is a parameter of the model:
  \<^item> \<open>gen_Test\<close>, the constant \<^verbatim>\<open>gen.Test\<close> of the mode flags;
  \<^item> \<open>quote_unicode\<close>, \<^verbatim>\<open>strconv.Quote\<close> on strings that are not ASCII;
  \<^item> \<open>imports_Process\<close>, the import normaliser \<^verbatim>\<open>imports.Process\<close>, which may look at
    the files next to the one it is given;
  \<^item> \<open>write_error\<close>, the storage error, if any, that \<^verbatim>\<open>ioutil.WriteFile\<close> meets when
    it opens a path, and \<open>umask\<close>, the file mode creation mask of the process;
  \<^item> \<open>gci_WriteFormattedFiles\<close>, the import grouping tool, which reads and rewrites
    files in storage.
\<close>

record 'm env =
  gen_Test :: 'm
  quote_unicode :: "string \<Rightarrow> string"
  imports_Process :: "storage \<Rightarrow> string \<Rightarrow> string \<Rightarrow> error + string"
  write_error :: "storage \<Rightarrow> string \<Rightarrow> error option"
  umask :: "32 word"
  gci_WriteFormattedFiles ::
    "string list \<Rightarrow> GciConfiguration \<Rightarrow> storage \<Rightarrow> error option \<times> storage"

text \<open>
  An import declaration: \<open>imp_Name\<close> is \<^verbatim>\<open>imp.Name.Name\<close> when \<^verbatim>\<open>imp.Name\<close> is not nil,
  \<open>imp_Path\<close> is \<^verbatim>\<open>imp.Path.Value\<close>.
\<close>

record ImportSpec =
  imp_Name :: "string option"
  imp_Path :: string

text \<open>
  \<^verbatim>\<open>f.PrintTo(gen.NewPrinter(mode, &topics, funcbuf, testwr))\<close> writes to the three
  sinks and returns an error or nil. It is given the mode and whether \<^verbatim>\<open>testwr\<close> is a
  writer (not nil); what it wrote to each sink and what it returned is a \<open>printed\<close>.
\<close>

record printed =
  topics_out :: string
  funcs_out :: string
  tests_out :: string
  print_err :: "error option"

record 'm FileSet =
  Package :: string
  Imports :: "ImportSpec list"
  PrintTo :: "'m \<Rightarrow> bool \<Rightarrow> printed"

subsection \<open>generate\<close>

definition importString :: "ImportSpec \<Rightarrow> string" where
  "importString imp =
     (case imp_Name imp of
        Some name \<Rightarrow> name @ '' '' @ imp_Path imp
      | None \<Rightarrow> imp_Path imp)"

definition generate ::
  "('a::len) word env \<Rightarrow> nat list \<Rightarrow> 'a word FileSet \<Rightarrow> 'a word
   \<Rightarrow> panic + (string \<times> string option \<times> error option)" where
  "generate env ord f mode =
     (let outbuf = writePkgHeader [] (Package f);
          myImports = fold (\<lambda>imp my. my @ [importString imp]) (Imports f)
                        [''github.com/algorand/msgp/msgp''];
          dedup = dedupImports ord myImports
      in case writeImportHeader (quote_unicode env) outbuf dedup of
           Inl p \<Rightarrow> Inl p
         | Inr outbuf \<Rightarrow>
            (case (if mode AND gen_Test env = gen_Test env
                   then (let testbuf = writeBuildHeader [] [''!skip_msgp_testing''];
                             testbuf = writePkgHeader testbuf (Package f)
                         in case writeImportHeader (quote_unicode env) testbuf
                                   [''github.com/algorand/msgp/msgp'',
                                    ''github.com/algorand/go-algorand/protocol'',
                                    ''github.com/algorand/go-algorand/test/partitiontest'',
                                    ''testing''] of
                              Inl p \<Rightarrow> Inl p
                            | Inr testbuf \<Rightarrow> Inr (Some testbuf))
                   else Inr None) of
               Inl p \<Rightarrow> Inl p
             | Inr testbuf \<Rightarrow>
                (let pr = PrintTo f mode (testbuf \<noteq> None);
                     testbuf = map_option (\<lambda>t. Write t (tests_out pr)) testbuf;
                     outbuf = (if print_err pr = None
                               then Write (Write outbuf (topics_out pr)) (funcs_out pr)
                               else outbuf)
                 in Inr (outbuf, testbuf, print_err pr))))"

subsection \<open>The outside world: storage and what was called\<close>

datatype event =
    ProcessCall string string
  | WriteFileCall string string "32 word"
  | GciCall "string list" GciConfiguration
  | InfofCall string "string list"

record world =
  files :: storage
  events :: "event list"

definition Process :: "'m env \<Rightarrow> string \<Rightarrow> string \<Rightarrow> world \<Rightarrow> (error + string) \<times> world" where
  "Process env filename src w =
     (imports_Process env (files w) filename src,
      w\<lparr>events := events w @ [ProcessCall filename src]\<rparr>)"

text \<open>
  \<^verbatim>\<open>ioutil.WriteFile(name, data, perm)\<close> creates the file with permissions \<open>perm\<close>
  (before umask) when it does not exist, and otherwise truncates it and keeps its
  permissions. A storage error is met on opening the file and leaves storage as it was.
\<close>

definition WriteFile ::
  "'m env \<Rightarrow> string \<Rightarrow> string \<Rightarrow> 32 word \<Rightarrow> world \<Rightarrow> error option \<times> world" where
  "WriteFile env name data perm w =
     (let w1 = w\<lparr>events := events w @ [WriteFileCall name data perm]\<rparr>
      in case write_error env (files w) name of
           Some e \<Rightarrow> (Some e, w1)
         | None \<Rightarrow>
            (None, w1\<lparr>files := (files w)(name \<mapsto>
               (data, case files w name of
                        None \<Rightarrow> perm AND NOT (umask env)
                      | Some (old, mode) \<Rightarrow> mode))\<rparr>))"

definition WriteFormattedFiles ::
  "'m env \<Rightarrow> string list \<Rightarrow> GciConfiguration \<Rightarrow> world \<Rightarrow> error option \<times> world" where
  "WriteFormattedFiles env paths cfg w =
     (case gci_WriteFormattedFiles env paths cfg (files w) of
        (r, st) \<Rightarrow> (r, w\<lparr>files := st, events := events w @ [GciCall paths cfg]\<rparr>))"

text \<open>
  \<^verbatim>\<open>infof(s, v...)\<close> prints the format \<open>s\<close>, coloured, with the arguments \<open>v\<close>; the world
  records the call.
\<close>

definition infof :: "string \<Rightarrow> string list \<Rightarrow> world \<Rightarrow> world" where
  "infof s v w = w\<lparr>events := events w @ [InfofCall s v]\<rparr>"

subsection \<open>format\<close>

definition gciConfig :: GciConfiguration where
  "gciConfig =
     \<lparr>Sections = [StandardPackage, DefaultSection,
                  Prefix ''github.com/algorand'',
                  Prefix ''github.com/algorand/go-algorand''],
      SectionSeparators = [NewLine]\<rparr>"

text \<open>The permissions \<^verbatim>\<open>0600\<close> (octal) are \<open>0x180\<close>.\<close>

definition format :: "'m env \<Rightarrow> string \<Rightarrow> string \<Rightarrow> bool \<Rightarrow> world \<Rightarrow> error option \<times> world" where
  "format env file data skipFormat w =
     (if skipFormat then WriteFile env file data 0x180 w
      else case Process env file data w of
             (Inl err, w) \<Rightarrow> (Some err, w)
           | (Inr out, w) \<Rightarrow>
              (case WriteFile env file out 0x180 w of
                 (Some err, w) \<Rightarrow> (Some err, w)
               | (None, w) \<Rightarrow>
                  (case WriteFormattedFiles env [file] gciConfig w of
                     (Some err, w) \<Rightarrow> (Some err, w)
                   | (None, w) \<Rightarrow> (None, w))))"

subsection \<open>PrintFile: the caller and the goroutine of goformat\<close>

text \<open>
  \<^verbatim>\<open>PrintFile\<close> runs two threads: the goroutine started by \<^verbatim>\<open>goformat\<close>, which formats
  the implementation file, sends the result on the channel \<^verbatim>\<open>out\<close> and logs; and the
  caller, which formats the test file, logs, and receives from the channel. Each thread
  is a state machine whose step is one action on the world or on the channel; a
  schedule says which thread takes the next step.

  \<open>format_step\<close> is \<^verbatim>\<open>format\<close> cut at its calls of the outside world: a step performs
  the next call and either finishes with the result of \<^verbatim>\<open>format\<close> (\<open>Inl\<close>) or goes on
  (\<open>Inr\<close>).
\<close>

datatype fpc = FStart | FProcessed string | FWritten

definition format_step ::
  "'m env \<Rightarrow> string \<Rightarrow> string \<Rightarrow> bool \<Rightarrow> fpc \<Rightarrow> world \<Rightarrow> (error option + fpc) \<times> world" where
  "format_step env file data skipFormat pc w =
     (case pc of
        FStart \<Rightarrow>
          if skipFormat
          then (case WriteFile env file data 0x180 w of (r, w) \<Rightarrow> (Inl r, w))
          else (case Process env file data w of
                  (Inl err, w) \<Rightarrow> (Inl (Some err), w)
                | (Inr out, w) \<Rightarrow> (Inr (FProcessed out), w))
      | FProcessed out \<Rightarrow>
          (case WriteFile env file out 0x180 w of
             (Some err, w) \<Rightarrow> (Inl (Some err), w)
           | (None, w) \<Rightarrow> (Inr FWritten, w))
      | FWritten \<Rightarrow>
          (case WriteFormattedFiles env [file] gciConfig w of
             (Some err, w) \<Rightarrow> (Inl (Some err), w)
           | (None, w) \<Rightarrow> (Inl None, w)))"

text \<open>
  The goroutine: in \<^verbatim>\<open>format\<close>; about to send the result; about to log; finished.
  The caller: in \<^verbatim>\<open>format\<close> of the test file; about to log; about to receive; returned,
  with the return statement taken and the value returned. The return statements are
  the one after \<^verbatim>\<open>generate\<close> (\<open>RetGenerate\<close>), the one after the \<^verbatim>\<open>format\<close> of the test
  file (\<open>RetTestFormat\<close>), and the two after the receive from the channel, which return
  what was received (\<open>RetJoin\<close>).
\<close>

datatype gpc = GNotStarted | GFormat fpc | GSend "error option" | GInfof | GDone

datatype ret_site = RetGenerate | RetTestFormat | RetJoin

datatype mpc = MFormat fpc | MInfof | MRecv | MReturned ret_site "error option"

text \<open>
  \<open>c_chan\<close> is the buffer of the channel made by \<^verbatim>\<open>make(chan error, 1)\<close>: a send blocks
  while the buffer holds one value, a receive blocks while it is empty. A thread that
  is blocked or finished does not move when it is scheduled.
\<close>

record conf =
  c_world :: world
  c_chan :: "error option list"
  c_g :: gpc
  c_m :: mpc

definition wrote_fmt :: string where
  \<open>wrote_fmt = ''>>> Wrote and formatted "%s"\<newline>''\<close>

definition step_g :: "'m env \<Rightarrow> string \<Rightarrow> string \<Rightarrow> bool \<Rightarrow> conf \<Rightarrow> conf" where
  "step_g env file data skipFormat c =
     (case c_g c of
        GFormat pc \<Rightarrow>
          (case format_step env file data skipFormat pc (c_world c) of
             (Inl r, w) \<Rightarrow> c\<lparr>c_world := w, c_g := GSend r\<rparr>
           | (Inr pc, w) \<Rightarrow> c\<lparr>c_world := w, c_g := GFormat pc\<rparr>)
      | GSend r \<Rightarrow>
          if length (c_chan c) < 1 then c\<lparr>c_chan := c_chan c @ [r], c_g := GInfof\<rparr> else c
      | GInfof \<Rightarrow> c\<lparr>c_world := infof wrote_fmt [file] (c_world c), c_g := GDone\<rparr>
      | GDone \<Rightarrow> c
      | GNotStarted \<Rightarrow> c)"

definition step_m :: "'m env \<Rightarrow> string \<Rightarrow> string \<Rightarrow> bool \<Rightarrow> conf \<Rightarrow> conf" where
  "step_m env testfile data skipFormat c =
     (case c_m c of
        MFormat pc \<Rightarrow>
          (case format_step env testfile data skipFormat pc (c_world c) of
             (Inl (Some err), w) \<Rightarrow> c\<lparr>c_world := w, c_m := MReturned RetTestFormat (Some err)\<rparr>
           | (Inl None, w) \<Rightarrow> c\<lparr>c_world := w, c_m := MInfof\<rparr>
           | (Inr pc, w) \<Rightarrow> c\<lparr>c_world := w, c_m := MFormat pc\<rparr>)
      | MInfof \<Rightarrow> c\<lparr>c_world := infof wrote_fmt [testfile] (c_world c), c_m := MRecv\<rparr>
      | MRecv \<Rightarrow>
          (case c_chan c of
             [] \<Rightarrow> c
           | err # rest \<Rightarrow> c\<lparr>c_chan := rest, c_m := MReturned RetJoin err\<rparr>)
      | MReturned site err \<Rightarrow> c)"

text \<open>A schedule is a list of booleans: \<open>True\<close> lets the caller step, \<open>False\<close> the goroutine.\<close>

definition run ::
  "'m env \<Rightarrow> string \<Rightarrow> string \<Rightarrow> string \<Rightarrow> string \<Rightarrow> bool \<Rightarrow> bool list \<Rightarrow> conf \<Rightarrow> conf" where
  "run env file out testfile tests skipFormat sched c =
     fold (\<lambda>caller c. if caller then step_m env testfile tests skipFormat c
                       else step_g env file out skipFormat c) sched c"

text \<open>
  \<^verbatim>\<open>goformat\<close> makes the channel and starts the goroutine; the goroutine's arguments
  \<^verbatim>\<open>file\<close>, \<^verbatim>\<open>data\<close> and \<^verbatim>\<open>skipFormat\<close> are those given to \<open>step_g\<close>.
\<close>

definition goformat :: "conf \<Rightarrow> conf" where
  "goformat c = c\<lparr>c_chan := [], c_g := GFormat FStart\<rparr>"

text \<open>
  \<^verbatim>\<open>PrintFile\<close> under a schedule. The result is the panic of \<^verbatim>\<open>generate\<close>, or the
  configuration reached when the schedule is used up; \<open>returned\<close> says whether the caller
  has returned by then, and what.
\<close>

definition PrintFile ::
  "('a::len) word env \<Rightarrow> nat list \<Rightarrow> bool list \<Rightarrow> string \<Rightarrow> 'a word FileSet \<Rightarrow> 'a word \<Rightarrow> bool
   \<Rightarrow> world \<Rightarrow> panic + conf" where
  "PrintFile env ord sched file f mode skipFormat w =
     (case generate env ord f mode of
        Inl p \<Rightarrow> Inl p
      | Inr (out, tests, Some err) \<Rightarrow>
          Inr \<lparr>c_world = w, c_chan = [], c_g = GNotStarted,
               c_m = MReturned RetGenerate (Some err)\<rparr>
      | Inr (out, tests, None) \<Rightarrow>
          (let c = goformat \<lparr>c_world = w, c_chan = [], c_g = GNotStarted, c_m = MRecv\<rparr>
           in case tests of
                None \<Rightarrow> Inr (run env file out [] [] skipFormat sched c)
              | Some tests \<Rightarrow>
                 (let testfile = TrimSuffix file ''.go'' @ ''_test.go''
                  in Inr (run env file out testfile tests skipFormat sched
                            (c\<lparr>c_m := MFormat FStart\<rparr>)))))"

definition returned :: "conf \<Rightarrow> error option option" where
  "returned c = (case c_m c of MReturned site err \<Rightarrow> Some err | _ \<Rightarrow> None)"

text \<open>
  \<^verbatim>\<open>format\<close> as a thread runs it, step after step, until it finishes or \<open>k\<close> steps are
  done.
\<close>

fun format_steps ::
  "nat \<Rightarrow> 'm env \<Rightarrow> string \<Rightarrow> string \<Rightarrow> bool \<Rightarrow> fpc \<Rightarrow> world
   \<Rightarrow> (error option \<times> world) option" where
  "format_steps 0 env file data skipFormat pc w = None"
| "format_steps (Suc k) env file data skipFormat pc w =
     (case format_step env file data skipFormat pc w of
        (Inl r, w) \<Rightarrow> Some (r, w)
      | (Inr pc, w) \<Rightarrow> format_steps k env file data skipFormat pc w)"

subsection \<open>Notions used to state the properties\<close>

text \<open>
  The line that the loop of \<^verbatim>\<open>writeImportHeader\<close> writes for a non-empty import string:
  a tab, the string itself when it ends in a double quote (an aliased or already quoted
  import) and its \<^verbatim>\<open>%q\<close> form otherwise, and a newline.
\<close>

definition importLine :: "(string \<Rightarrow> string) \<Rightarrow> string \<Rightarrow> string" where
  "importLine qu im =
     [CHR 0x09] @ (if last im = CHR 0x22 then im else fmt_q qu im) @ [CHR 0x0A]"

text \<open>The paths that a call of the outside world names.\<close>

fun event_paths :: "event \<Rightarrow> string list" where
  "event_paths (ProcessCall filename src) = [filename]"
| "event_paths (WriteFileCall name data perm) = [name]"
| "event_paths (GciCall paths cfg) = paths"
| "event_paths (InfofCall s v) = v"

text \<open>The events added to the world since it had \<open>n\<close> events.\<close>

definition events_since :: "nat \<Rightarrow> conf \<Rightarrow> event list" where
  "events_since n c = drop n (events (c_world c))"

text \<open>
  What holds of every configuration that a run of the two threads reaches from a world
  with \<open>n\<close> events: the events added name the implementation file or the test file;
  the log line of the test file is there only when the caller is past its logging; the
  channel is empty until the goroutine has sent, and holds the result from then until
  the caller has received it.
\<close>

definition run_inv :: "nat \<Rightarrow> string \<Rightarrow> string \<Rightarrow> conf \<Rightarrow> bool" where
  "run_inv n file testfile c \<longleftrightarrow>
     n \<le> length (events (c_world c))
     \<and> (\<forall>ev \<in> set (events_since n c). event_paths ev = [file] \<or> event_paths ev = [testfile])
     \<and> (InfofCall wrote_fmt [testfile] \<in> set (events_since n c) \<longrightarrow>
          c_m c = MRecv \<or> (\<exists>r. c_m c = MReturned RetJoin r))
     \<and> (c_g c = GInfof \<or> c_g c = GDone \<longrightarrow>
          (\<exists>r. c_m c = MReturned RetJoin r) \<or> c_chan c \<noteq> [])
     \<and> (c_g c \<noteq> GInfof \<and> c_g c \<noteq> GDone \<longrightarrow> c_chan c = [])"

text \<open>
  How many steps a thread has left at most: a measure of its progress.
\<close>

fun fpc_left :: "fpc \<Rightarrow> nat" where
  "fpc_left FStart = 3"
| "fpc_left (FProcessed out) = 2"
| "fpc_left FWritten = 1"

fun g_left :: "gpc \<Rightarrow> nat" where
  "g_left GNotStarted = 0"
| "g_left (GFormat pc) = fpc_left pc + 2"
| "g_left (GSend r) = 2"
| "g_left GInfof = 1"
| "g_left GDone = 0"

fun m_left :: "mpc \<Rightarrow> nat" where
  "m_left (MFormat pc) = fpc_left pc + 2"
| "m_left MInfof = 2"
| "m_left MRecv = 1"
| "m_left (MReturned site err) = 0"



subsection \<open>Sample inputs\<close>

text \<open>
  A world without files, collaborators that succeed (the normaliser and the grouping
  tool leave the text as it is), and a file description of package \<^verbatim>\<open>sample\<close> that
  imports \<^verbatim>\<open>"fmt"\<close> and whose body generator emits \<^verbatim>\<open>func Foo() {}\<close>.
\<close>

definition empty_world :: world where
  "empty_world = \<lparr>files = Map.empty, events = []\<rparr>"

definition sample_env :: "8 word env" where
  "sample_env =
     \<lparr>gen_Test = 32,
      quote_unicode = (\<lambda>s. s),
      imports_Process = (\<lambda>st filename src. Inr src),
      write_error = (\<lambda>st name. None),
      umask = 0x12,
      gci_WriteFormattedFiles = (\<lambda>paths cfg st. (None, st))\<rparr>"

definition sample_file :: "8 word FileSet" where
  \<open>sample_file =
     \<lparr>Package = ''sample'',
      Imports = [\<lparr>imp_Name = None, imp_Path = ''"fmt"''\<rparr>],
      PrintTo = (\<lambda>mode testwr.
        \<lparr>topics_out = [], funcs_out = ''func Foo() {}'', tests_out = [],
         print_err = None\<rparr>)\<rparr>\<close>

text \<open>A file description whose body generator fails after it has written some output.\<close>

definition failing_file :: "8 word FileSet" where
  \<open>failing_file =
     \<lparr>Package = ''sample'',
      Imports = [\<lparr>imp_Name = None, imp_Path = ''"fmt"''\<rparr>],
      PrintTo = (\<lambda>mode testwr.
        \<lparr>topics_out = ''var x int'', funcs_out = ''func Foo('', tests_out = ''func Test'',
         print_err = Some (Error ''unsupported type'')\<rparr>)\<rparr>\<close>

text \<open>
  Collaborators whose grouping tool fails: one that fails before it touches the file,
  and one that fails while it rewrites the file and leaves it empty.
\<close>

definition failing_gci_env :: "8 word env" where
  "failing_gci_env =
     sample_env\<lparr>gci_WriteFormattedFiles :=
       (\<lambda>paths cfg st. (Some (Error ''expected declaration''), st))\<rparr>"

definition clobbering_gci_env :: "8 word env" where
  "clobbering_gci_env =
     sample_env\<lparr>gci_WriteFormattedFiles :=
       (\<lambda>paths cfg st.
          (Some (Error ''no space left on device''),
           (\<lambda>name. if name \<in> set paths
                    then map_option (\<lambda>(data, mode). ([], mode)) (st name)
                    else st name)))\<rparr>"

text \<open>
  Collaborators whose normaliser rejects the test file, and collaborators whose storage
  refuses to open the implementation file for writing.
\<close>

definition failing_test_env :: "8 word env" where
  "failing_test_env =
     sample_env\<lparr>imports_Process :=
       (\<lambda>st filename src.
          if filename = ''out_test.go'' then Inl (Error ''expected declaration'') else Inr src)\<rparr>"

definition read_only_env :: "8 word env" where
  "read_only_env =
     sample_env\<lparr>write_error :=
       (\<lambda>st name. if name = ''out.go'' then Some (Error ''permission denied'') else None)\<rparr>"

text \<open>
  File descriptions whose body generator emits, in its body output, the text of the
  generated-code marker, or the text of a build constraint (as a generator does that
  copies a comment or a field tag of the source into its output); and a file description
  that itself declares the runtime-support import.
\<close>

definition marker_in_body_file :: "8 word FileSet" where
  \<open>marker_in_body_file =
     \<lparr>Package = ''sample'',
      Imports = [\<lparr>imp_Name = None, imp_Path = ''"fmt"''\<rparr>],
      PrintTo = (\<lambda>mode testwr.
        \<lparr>topics_out = [],
         funcs_out = ''// Code generated by github.com/algorand/msgp DO NOT EDIT.\<newline>func Foo() {}'',
         tests_out = [], print_err = None\<rparr>)\<rparr>\<close>

definition build_comment_in_body_file :: "8 word FileSet" where
  \<open>build_comment_in_body_file =
     \<lparr>Package = ''sample'',
      Imports = [\<lparr>imp_Name = None, imp_Path = ''"fmt"''\<rparr>],
      PrintTo = (\<lambda>mode testwr.
        \<lparr>topics_out = [],
         funcs_out = ''//go:build !skip_msgp_testing\<newline>// +build !skip_msgp_testing\<newline>\<newline>func Foo() {}'',
         tests_out = [], print_err = None\<rparr>)\<rparr>\<close>

definition runtime_import_file :: "8 word FileSet" where
  \<open>runtime_import_file =
     \<lparr>Package = ''sample'',
      Imports = [\<lparr>imp_Name = None, imp_Path = ''"github.com/algorand/msgp/msgp"''\<rparr>],
      PrintTo = (\<lambda>mode testwr.
        \<lparr>topics_out = [], funcs_out = ''func Foo() {}'', tests_out = [],
         print_err = None\<rparr>)\<rparr>\<close>

section \<open>Properties\<close>

subsection \<open>Iterating over a map\<close>

lemma remove_nth_mset:
  assumes "i < length ks"
  shows "add_mset (ks ! i) (mset (take i ks @ drop (Suc i) ks)) = mset ks"
proof -
  have "mset (take i ks @ ks ! i # drop (Suc i) ks) = mset ks"
    using assms by (simp only: id_take_nth_drop [symmetric])
  then show ?thesis
    by simp
qed

lemma range_keys_mset: "mset (range_keys cs ks) = mset ks"
proof (induction cs ks rule: range_keys.induct)
  case (3 c cs k ks)
  let ?i = "c mod length (k # ks)"
  have i: "?i < length (k # ks)"
    by simp
  have "mset (range_keys (c # cs) (k # ks)) =
        add_mset ((k # ks) ! ?i) (mset (take ?i (k # ks) @ drop (Suc ?i) (k # ks)))"
    using "3.IH" [of ?i] by (simp add: Let_def del: take_Suc_Cons drop_Suc_Cons nth_Cons_Suc)
  also have "\<dots> = mset (k # ks)"
    using remove_nth_mset [OF i] .
  finally show ?case .
qed simp_all

lemma range_keys_set: "set (range_keys cs ks) = set ks"
  using range_keys_mset [of cs ks] by (metis set_mset_mset)

lemma range_keys_distinct: "distinct (range_keys cs ks) = distinct ks"
  using range_keys_mset [of cs ks] by (metis distinct_count_atmost_1 set_mset_mset)

lemma range_keys_any_order:
  "mset r = mset ks \<Longrightarrow> \<exists>cs. range_keys cs ks = r"
proof (induction r arbitrary: ks)
  case Nil
  then show ?case by simp
next
  case (Cons x r)
  then have "x \<in> set ks"
    by (metis list.set_intros(1) set_mset_mset)
  then obtain i where i: "i < length ks" "ks ! i = x"
    by (auto simp: in_set_conv_nth)
  then obtain k ks' where ks: "ks = k # ks'"
    by (cases ks) auto
  let ?rest = "take i ks @ drop (Suc i) ks"
  have "add_mset x (mset ?rest) = mset ks"
    using remove_nth_mset [OF i(1)] i(2) by simp
  with Cons.prems have "add_mset x (mset r) = add_mset x (mset ?rest)"
    by simp
  then have "mset r = mset ?rest"
    by (simp only: add_mset_add_mset_same_iff)
  then obtain cs where cs: "range_keys cs ?rest = r"
    using Cons.IH by blast
  have "range_keys (i # cs) (k # ks') = x # r"
    using i cs unfolding ks by (simp add: Let_def del: take_Suc_Cons drop_Suc_Cons nth_Cons_Suc)
  then show ?case
    unfolding ks by blast
qed

lemma fold_snoc: "fold (\<lambda>k r. r @ [k]) ks r0 = r0 @ ks"
  by (induction ks arbitrary: r0) auto

lemma fold_update_keys:
  "set (map fst (fold (\<lambda>s m. AList.update s () m) imp m0)) = set (map fst m0) \<union> set imp"
  by (induction imp arbitrary: m0) (auto simp: AList.dom_update)

lemma fold_update_distinct:
  "distinct (map fst m0) \<Longrightarrow> distinct (map fst (fold (\<lambda>s m. AList.update s () m) imp m0))"
  by (induction imp arbitrary: m0) (auto simp: AList.distinct_update)

lemma dedupImports_eq:
  "dedupImports ord imp = range_keys ord (map fst (fold (\<lambda>s m. AList.update s () m) imp []))"
  by (simp add: dedupImports_def fold_snoc)

lemma dedupImports_set: "set (dedupImports ord imp) = set imp"
  using fold_update_keys [of imp "[]"] by (simp add: dedupImports_eq range_keys_set)

lemma dedupImports_distinct: "distinct (dedupImports ord imp)"
  using fold_update_distinct [of "[]" imp] by (simp add: dedupImports_eq range_keys_distinct)

lemma dedupImports_Nil: "dedupImports ord [] = []"
  by (simp add: dedupImports_eq)

lemma dedupImports_any_order:
  assumes "distinct r" and "set r = set imp"
  shows "\<exists>ord. dedupImports ord imp = r"
proof -
  let ?ks = "map fst (fold (\<lambda>s m. AList.update s () m) imp [])"
  have "distinct ?ks" and "set ?ks = set imp"
    using fold_update_distinct [of "[]" imp] fold_update_keys [of imp "[]"] by simp_all
  with assms have "mset r = mset ?ks"
    using set_eq_iff_mset_eq_distinct [of r ?ks] by simp
  then show ?thesis
    using range_keys_any_order [of r ?ks] by (simp only: dedupImports_eq)
qed

lemma distinct_count_list:
  "distinct xs \<Longrightarrow> x \<in> set xs \<Longrightarrow> count_list xs x = 1"
  by (induction xs) auto

lemma dedupImports_count:
  "s \<in> set imp \<Longrightarrow> count_list (dedupImports ord imp) s = 1"
  using dedupImports_distinct [of ord imp] dedupImports_set [of ord imp]
  by (simp add: distinct_count_list)

text \<open>
  C6. For every list of import strings and every iteration order of the map,
  \<open>dedupImports\<close> returns a list without repetitions whose elements are exactly the
  elements of the input, so each distinct import occurs exactly once; it is a total
  function without an error result; the empty input gives the empty output; and the
  order of the output is not determined by the input: every arrangement of the distinct
  imports is the output under some iteration order of the map.
\<close>

theorem dedupImports_distinct_set:
  "set (dedupImports ord imp) = set imp
   \<and> distinct (dedupImports ord imp)
   \<and> (\<forall>s \<in> set imp. count_list (dedupImports ord imp) s = 1)
   \<and> dedupImports ord [] = []
   \<and> (\<forall>r. distinct r \<and> set r = set imp \<longrightarrow> (\<exists>ord'. dedupImports ord' imp = r))"
  using dedupImports_set [of ord imp] dedupImports_distinct [of ord imp]
    dedupImports_Nil [of ord] dedupImports_any_order [of _ imp] dedupImports_count [of _ imp ord]
  by blast

theorem dedupImports_distinct_set_witness:
  "set (dedupImports [1] [''a'', ''b'', ''a'']) = {''a'', ''b''}
   \<and> dedupImports [1] [''a'', ''b'', ''a''] = [''b'', ''a'']
   \<and> count_list (dedupImports [1] [''a'', ''b'', ''a'']) ''a'' = 1
   \<and> (\<exists>ord'. dedupImports ord' [''a'', ''b'', ''a''] = [''a'', ''b''])"
proof -
  have e: "dedupImports [1] [''a'', ''b'', ''a''] = [''b'', ''a'']"
    by (simp add: dedupImports_def)
  have d: "distinct [''a'', ''b''] \<and> set [''a'', ''b''] = set [''a'', ''b'', ''a'']"
    by auto
  have m: "''a'' \<in> set [''a'', ''b'', ''a'']"
    by simp
  note t = dedupImports_distinct_set [of "[1]" "[''a'', ''b'', ''a'']"]
  have 1: "set (dedupImports [1] [''a'', ''b'', ''a'']) = {''a'', ''b''}"
    using t by auto
  have 2: "count_list (dedupImports [1] [''a'', ''b'', ''a'']) ''a'' = 1"
    using t m by blast
  have 3: "\<exists>ord'. dedupImports ord' [''a'', ''b'', ''a''] = [''a'', ''b'']"
    using t d by blast
  show ?thesis
    using 1 2 3 e by blast
qed

subsection \<open>The header writers\<close>

lemma index_last: "im \<noteq> [] \<Longrightarrow> im ! nat (int (length im) - 1) = last im"
  by (simp add: last_conv_nth nat_diff_distrib')

lemma writeImports_Cons_nonempty:
  "im \<noteq> [] \<Longrightarrow> writeImports qu b (im # ims) = writeImports qu (b @ importLine qu im) ims"
  using index_last [of im]
  by (cases im) (simp_all add: Let_def importLine_def WriteString_def del: last.simps)

lemma writeImports_nonempty:
  "[] \<notin> set ims \<Longrightarrow> writeImports qu b ims = Inr (b @ concat (map (importLine qu) ims))"
proof (induction ims arbitrary: b)
  case Nil
  then show ?case by simp
next
  case (Cons im ims)
  then have "im \<noteq> []" and "[] \<notin> set ims"
    by auto
  then show ?case
    using Cons.IH [of "b @ importLine qu im"] by (simp add: writeImports_Cons_nonempty del: writeImports.simps)
qed

lemma writeImports_empty:
  "[] \<in> set ims \<Longrightarrow> writeImports qu b ims = Inl (IndexOutOfRange (- 1) 0)"
proof (induction ims arbitrary: b)
  case Nil
  then show ?case by simp
next
  case (Cons im ims)
  show ?case
  proof (cases "im = []")
    case True
    then show ?thesis by simp
  next
    case False
    with Cons.prems have "[] \<in> set ims"
      by auto
    then show ?thesis
      using Cons.IH [of "b @ importLine qu im"] False by (simp add: writeImports_Cons_nonempty del: writeImports.simps)
  qed
qed

lemma writeImportHeader_nonempty:
  "[] \<notin> set imps \<Longrightarrow>
   writeImportHeader qu b imps =
     Inr (b @ ''import (\<newline>'' @ concat (map (importLine qu) imps) @ '')\<newline>\<newline>'')"
  by (simp add: writeImportHeader_def writeImports_nonempty WriteString_def)

lemma writeImportHeader_empty:
  "[] \<in> set imps \<Longrightarrow> writeImportHeader qu b imps = Inl (IndexOutOfRange (- 1) 0)"
  by (simp add: writeImportHeader_def writeImports_empty)

text \<open>
  C10. \<^verbatim>\<open>writeImportHeader\<close> reads the last byte of every import string. When some
  import string is empty, the index \<open>len(im) - 1 = -1\<close> is out of range and the call
  panics; when every import string is non-empty, the call does not panic and writes the
  import block, so the panic can only come from an empty import string.
\<close>

theorem writeImportHeader_panics_iff_empty_import:
  "([] \<in> set imps \<longrightarrow> writeImportHeader qu b imps = Inl (IndexOutOfRange (- 1) 0))
   \<and> ([] \<notin> set imps \<longrightarrow>
        writeImportHeader qu b imps =
          Inr (b @ ''import (\<newline>'' @ concat (map (importLine qu) imps) @ '')\<newline>\<newline>''))"
  using writeImportHeader_empty [of imps qu b] writeImportHeader_nonempty [of imps qu b]
  by blast

theorem writeImportHeader_panics_iff_empty_import_witness:
  \<open>writeImportHeader (\<lambda>s. s) ''x'' [''"fmt"'', ''''] = Inl (IndexOutOfRange (- 1) 0)
   \<and> writeImportHeader (\<lambda>s. s) ''x'' [''"fmt"'', ''os''] =
       Inr (''ximport (\<newline>'' @ [CHR 0x09] @ ''"fmt"\<newline>'' @ [CHR 0x09] @ ''"os"\<newline>)\<newline>\<newline>'')\<close>
proof -
  have 1: \<open>[] \<in> set [''"fmt"'', '''']\<close>
    by simp
  have 2: \<open>[] \<notin> set [''"fmt"'', ''os'']\<close>
    by simp
  have 3: \<open>concat (map (importLine (\<lambda>s. s)) [''"fmt"'', ''os'']) =
           [CHR 0x09] @ ''"fmt"\<newline>'' @ [CHR 0x09] @ ''"os"\<newline>''\<close>
    by (simp add: importLine_def fmt_q_def appendEscapedByte_def)
  show ?thesis
    using writeImportHeader_panics_iff_empty_import [of \<open>[''"fmt"'', '''']\<close> "\<lambda>s. s" "''x''"]
      writeImportHeader_panics_iff_empty_import [of \<open>[''"fmt"'', ''os'']\<close> "\<lambda>s. s" "''x''"]
      1 2 3
    by simp
qed

subsection \<open>generate\<close>

lemma fold_importString:
  "fold (\<lambda>imp my. my @ [importString imp]) imps init = init @ map importString imps"
  by (induction imps arbitrary: init) auto

lemma fmt_q_runtime:
  \<open>fmt_q qu ''github.com/algorand/msgp/msgp'' = ''"github.com/algorand/msgp/msgp"''\<close>
  by (simp add: fmt_q_def appendEscapedByte_def)

lemma fmt_q_protocol:
  \<open>fmt_q qu ''github.com/algorand/go-algorand/protocol'' =
     ''"github.com/algorand/go-algorand/protocol"''\<close>
  by (simp add: fmt_q_def appendEscapedByte_def)

lemma fmt_q_partitiontest:
  \<open>fmt_q qu ''github.com/algorand/go-algorand/test/partitiontest'' =
     ''"github.com/algorand/go-algorand/test/partitiontest"''\<close>
  by (simp add: fmt_q_def appendEscapedByte_def)

lemma fmt_q_testing: \<open>fmt_q qu ''testing'' = ''"testing"''\<close>
  by (simp add: fmt_q_def appendEscapedByte_def)

lemma test_import_header:
  \<open>writeImportHeader qu b
     [''github.com/algorand/msgp/msgp'', ''github.com/algorand/go-algorand/protocol'',
      ''github.com/algorand/go-algorand/test/partitiontest'', ''testing''] =
   Inr (b @ ''import (\<newline>''
          @ [CHR 0x09] @ ''"github.com/algorand/msgp/msgp"\<newline>''
          @ [CHR 0x09] @ ''"github.com/algorand/go-algorand/protocol"\<newline>''
          @ [CHR 0x09] @ ''"github.com/algorand/go-algorand/test/partitiontest"\<newline>''
          @ [CHR 0x09] @ ''"testing"\<newline>''
          @ '')\<newline>\<newline>'')\<close>
proof -
  have \<open>[] \<notin> set [''github.com/algorand/msgp/msgp'', ''github.com/algorand/go-algorand/protocol'',
      ''github.com/algorand/go-algorand/test/partitiontest'', ''testing'']\<close>
    by simp
  then show ?thesis
    by (simp add: writeImportHeader_nonempty importLine_def fmt_q_runtime fmt_q_protocol
        fmt_q_partitiontest fmt_q_testing)
qed

lemma dedup_myImports_nonempty:
  assumes "\<forall>imp \<in> set (Imports f). importString imp \<noteq> []"
  shows "[] \<notin> set (dedupImports ord (''github.com/algorand/msgp/msgp'' # map importString (Imports f)))"
  using assms by (auto simp: dedupImports_set)

lemma generate_main_header:
  assumes "\<forall>imp \<in> set (Imports f). importString imp \<noteq> []"
  shows "writeImportHeader qu (writePkgHeader [] (Package f))
           (dedupImports ord (''github.com/algorand/msgp/msgp'' # map importString (Imports f))) =
         Inr (''package '' @ Package f @ ''\<newline>''
              @ ''// Code generated by github.com/algorand/msgp DO NOT EDIT.\<newline>\<newline>''
              @ ''import (\<newline>''
              @ concat (map (importLine qu)
                  (dedupImports ord
                     (''github.com/algorand/msgp/msgp'' # map importString (Imports f))))
              @ '')\<newline>\<newline>'')"
  using dedup_myImports_nonempty [OF assms, of ord]
  by (simp add: writeImportHeader_nonempty writePkgHeader_def WriteString_def WriteByte_def)

lemma generate_test_header:
  \<open>writeImportHeader qu
      (writePkgHeader (writeBuildHeader [] [''!skip_msgp_testing'']) name)
      [''github.com/algorand/msgp/msgp'', ''github.com/algorand/go-algorand/protocol'',
       ''github.com/algorand/go-algorand/test/partitiontest'', ''testing''] =
    Inr (''//go:build !skip_msgp_testing\<newline>// +build !skip_msgp_testing\<newline>\<newline>''
         @ ''package '' @ name @ ''\<newline>''
         @ ''// Code generated by github.com/algorand/msgp DO NOT EDIT.\<newline>\<newline>''
         @ ''import (\<newline>''
         @ [CHR 0x09] @ ''"github.com/algorand/msgp/msgp"\<newline>''
         @ [CHR 0x09] @ ''"github.com/algorand/go-algorand/protocol"\<newline>''
         @ [CHR 0x09] @ ''"github.com/algorand/go-algorand/test/partitiontest"\<newline>''
         @ [CHR 0x09] @ ''"testing"\<newline>''
         @ '')\<newline>\<newline>'')\<close>
  by (simp add: test_import_header writePkgHeader_def writeBuildHeader_def WriteString_def
      WriteByte_def)

lemma generate_nonempty:
  assumes "\<forall>imp \<in> set (Imports f). importString imp \<noteq> []"
  shows \<open>generate env ord f mode =
     (let t = (mode AND gen_Test env = gen_Test env);
          pr = PrintTo f mode t;
          hdr = ''package '' @ Package f @ ''\<newline>''
              @ ''// Code generated by github.com/algorand/msgp DO NOT EDIT.\<newline>\<newline>''
              @ ''import (\<newline>''
              @ concat (map (importLine (quote_unicode env))
                  (dedupImports ord
                     (''github.com/algorand/msgp/msgp'' # map importString (Imports f))))
              @ '')\<newline>\<newline>'';
          thdr = ''//go:build !skip_msgp_testing\<newline>// +build !skip_msgp_testing\<newline>\<newline>''
              @ ''package '' @ Package f @ ''\<newline>''
              @ ''// Code generated by github.com/algorand/msgp DO NOT EDIT.\<newline>\<newline>''
              @ ''import (\<newline>''
              @ [CHR 0x09] @ ''"github.com/algorand/msgp/msgp"\<newline>''
              @ [CHR 0x09] @ ''"github.com/algorand/go-algorand/protocol"\<newline>''
              @ [CHR 0x09] @ ''"github.com/algorand/go-algorand/test/partitiontest"\<newline>''
              @ [CHR 0x09] @ ''"testing"\<newline>''
              @ '')\<newline>\<newline>''
      in Inr (if print_err pr = None then hdr @ topics_out pr @ funcs_out pr else hdr,
              if t then Some (thdr @ tests_out pr) else None,
              print_err pr))\<close>
  by (simp add: generate_def fold_importString generate_main_header [OF assms]
      generate_test_header Let_def Write_def)

lemma generate_panics:
  assumes "imp \<in> set (Imports f)" and "importString imp = []"
  shows "generate env ord f mode = Inl (IndexOutOfRange (- 1) 0)"
proof -
  have "[] \<in> set (dedupImports ord (''github.com/algorand/msgp/msgp'' # map importString (Imports f)))"
    using assms by (force simp: dedupImports_set)
  then show ?thesis
    by (simp add: generate_def fold_importString writeImportHeader_empty Let_def)
qed


lemma importLine_runtime:
  \<open>importLine qu ''github.com/algorand/msgp/msgp'' =
     [CHR 0x09] @ ''"github.com/algorand/msgp/msgp"\<newline>''\<close>
  by (simp add: importLine_def fmt_q_runtime)

lemma importLine_quoted:
  "im \<noteq> [] \<Longrightarrow> last im = CHR 0x22 \<Longrightarrow> importLine qu im = [CHR 0x09] @ im @ [CHR 0x0A]"
  by (simp add: importLine_def)

lemma hd_take: "0 < n \<Longrightarrow> hd (take n xs) = hd xs"
  by (cases n; cases xs) simp_all


lemma take_drop_sublist:
  assumes "take (length m) (drop k s) = m"
  shows "sublist m s"
proof -
  have "drop k s = take (length m) (drop k s) @ drop (length m) (drop k s)"
    by (simp only: append_take_drop_id)
  then have "drop k s = m @ drop (length m) (drop k s)"
    by (simp only: assms)
  then have "take k s @ drop k s = take k s @ m @ drop (length m) (drop k s)"
    by (rule arg_cong)
  then have "s = take k s @ m @ drop (length m) (drop k s)"
    by (simp only: append_take_drop_id)
  then show ?thesis
    unfolding sublist_def by blast
qed

lemma occurs_once:
  assumes m: "m \<noteq> []" and a: "hd m \<notin> set a" and x: "x \<notin> set m"
    and r: "\<not> sublist m (x # r)"
  shows "take (length m) (drop i (a @ m @ x # r)) = m \<longleftrightarrow> i = length a"
proof
  assume "i = length a"
  then show "take (length m) (drop i (a @ m @ x # r)) = m"
    by simp
next
  assume eq: "take (length m) (drop i (a @ m @ x # r)) = m"
  show "i = length a"
  proof (rule ccontr)
    assume ne: "i \<noteq> length a"
    consider (before) "i < length a"
      | (inside) "length a < i" "i < length a + length m"
      | (after) "length a + length m \<le> i"
      using ne by linarith
    then show False
    proof cases
      case before
      let ?s = "a @ m @ x # r"
      have i: "i < length ?s"
        using before by simp
      have "0 < length m"
        using m by simp
      then have "hd (take (length m) (drop i ?s)) = hd (drop i ?s)"
        by (rule hd_take)
      also have "\<dots> = ?s ! i"
        by (rule hd_drop_conv_nth [OF i])
      also have "\<dots> = a ! i"
        using before by (simp add: nth_append)
      finally have "hd m = a ! i"
        by (simp only: eq)
      with before a show False
        by simp
    next
      case inside
      let ?j = "i - length a"
      have j: "0 < ?j" "?j < length m"
        using inside by simp_all
      have d: "drop i (a @ m @ x # r) = drop ?j m @ x # r"
        using inside by simp
      have e2: "take (length m) (drop ?j m @ x # r) = m"
        using eq unfolding d .
      have "m ! (length m - ?j) = take (length m) (drop ?j m @ x # r) ! (length m - ?j)"
        by (simp only: e2)
      also have "\<dots> = x"
        using j by (simp add: nth_append)
      finally have "m ! (length m - ?j) = x" .
      moreover have "length m - ?j < length m"
        using j by simp
      ultimately show False
        using x nth_mem by metis
    next
      case after
      then have d: "drop i (a @ m @ x # r) = drop (i - length a - length m) (x # r)"
        by simp
      have "take (length m) (drop (i - length a - length m) (x # r)) = m"
        using eq unfolding d .
      then have "sublist m (x # r)"
        by (rule take_drop_sublist)
      with r show False
        by simp
    qed
  qed
qed

lemma sublist_skip:
  assumes "m \<noteq> []" and "hd m \<noteq> x" and "\<not> sublist m r"
  shows "\<not> sublist m (x # r)"
  using assms by (cases m) (auto simp: sublist_Cons_right)


lemma marker_once:
  assumes "CHR ''/'' \<notin> set name"
    and "\<not> sublist ''// Code generated by github.com/algorand/msgp DO NOT EDIT.'' rest"
  shows "take (length ''// Code generated by github.com/algorand/msgp DO NOT EDIT.'')
           (drop i (''package '' @ name @ ''\<newline>''
              @ ''// Code generated by github.com/algorand/msgp DO NOT EDIT.'' @ ''\<newline>''
              @ ''\<newline>'' @ rest))
         = ''// Code generated by github.com/algorand/msgp DO NOT EDIT.''
         \<longleftrightarrow> i = length (''package '' @ name @ ''\<newline>'')"
proof -
  let ?m = "''// Code generated by github.com/algorand/msgp DO NOT EDIT.''"
  let ?a = "''package '' @ name @ ''\<newline>''"
  have m: "?m \<noteq> []"
    by simp
  have h: "hd ?m = CHR ''/''"
    by simp
  have a: "hd ?m \<notin> set ?a"
    using assms(1) by (simp only: h) simp
  have x: "CHR ''\<newline>'' \<notin> set ?m"
    by simp
  have n: "hd ?m \<noteq> CHR ''\<newline>''"
    by (simp only: h) simp
  have "\<not> sublist ?m (CHR ''\<newline>'' # rest)"
    by (rule sublist_skip [OF m n assms(2)])
  then have r: "\<not> sublist ?m (CHR ''\<newline>'' # CHR ''\<newline>'' # rest)"
    by (rule sublist_skip [OF m n])
  have e: "''package '' @ name @ ''\<newline>'' @ ?m @ ''\<newline>'' @ ''\<newline>'' @ rest =
           ?a @ ?m @ CHR ''\<newline>'' # (CHR ''\<newline>'' # rest)"
    by simp
  show ?thesis
    unfolding e by (rule occurs_once [OF m a x r])
qed

text \<open>
  C1 (amended). For every file description whose import strings are not empty (otherwise
  \<^verbatim>\<open>generate\<close> panics before the body generator is called) and every mode: when
  \<^verbatim>\<open>PrintTo\<close> succeeds, \<^verbatim>\<open>generate\<close> returns without error, and the implementation
  buffer is, in this order, the package clause, the generated-code marker on the next
  line, written once by \<^verbatim>\<open>generate\<close>, a blank line, the import block, all topic output
  and all body output. The lines of the import block are the line of the runtime-support
  import, written quoted, and the lines of the imports of the file description, and no
  other; an import that ends in a double quote, aliased or not, is written as it is, an
  aliased one as its alias, a space and its path. No line of the block is repeated,
  provided that different import strings give different lines. The output of the body
  generator is appended as it is: the marker occurs in the buffer at exactly one place,
  right after the package clause, provided the package name has no slash and the marker
  does not occur in what follows the header (the import block and the output of the body
  generator).
\<close>

theorem generate_implementation_buffer:
  assumes "\<forall>imp \<in> set (Imports f). importString imp \<noteq> []"
    and "print_err (PrintTo f mode (mode AND gen_Test env = gen_Test env)) = None"
  shows \<open>\<exists>out rest lines tests.
      generate env ord f mode = Inr (out, tests, None)
      \<and> out = ''package '' @ Package f @ ''\<newline>''
             @ ''// Code generated by github.com/algorand/msgp DO NOT EDIT.'' @ ''\<newline>''
             @ ''\<newline>''
             @ rest
      \<and> rest = ''import (\<newline>'' @ concat lines @ '')\<newline>\<newline>''
             @ topics_out (PrintTo f mode (mode AND gen_Test env = gen_Test env))
             @ funcs_out (PrintTo f mode (mode AND gen_Test env = gen_Test env))
      \<and> set lines = importLine (quote_unicode env)
                       ` insert ''github.com/algorand/msgp/msgp'' (importString ` set (Imports f))
      \<and> (inj_on (importLine (quote_unicode env))
                  (insert ''github.com/algorand/msgp/msgp'' (importString ` set (Imports f))) \<longrightarrow>
           distinct lines)
      \<and> importLine (quote_unicode env) ''github.com/algorand/msgp/msgp'' =
          [CHR 0x09] @ ''"github.com/algorand/msgp/msgp"\<newline>''
      \<and> (\<forall>imp \<in> set (Imports f). imp_Path imp \<noteq> [] \<and> last (imp_Path imp) = CHR 0x22 \<longrightarrow>
            importLine (quote_unicode env) (importString imp) =
              [CHR 0x09]
              @ (case imp_Name imp of None \<Rightarrow> imp_Path imp
                 | Some name \<Rightarrow> name @ '' '' @ imp_Path imp)
              @ [CHR 0x0A])
      \<and> (CHR ''/'' \<notin> set (Package f) \<and> \<not> sublist ''// Code generated by github.com/algorand/msgp DO NOT EDIT.'' rest \<longrightarrow>
           (\<forall>i. take (length ''// Code generated by github.com/algorand/msgp DO NOT EDIT.'') (drop i out) = ''// Code generated by github.com/algorand/msgp DO NOT EDIT.''
                 \<longleftrightarrow> i = length (''package '' @ Package f @ ''\<newline>'')))\<close>
proof -
  let ?imps = "dedupImports ord (''github.com/algorand/msgp/msgp'' # map importString (Imports f))"
  let ?lines = "map (importLine (quote_unicode env)) ?imps"
  let ?pr = "PrintTo f mode (mode AND gen_Test env = gen_Test env)"
  let ?rest = "''import (\<newline>'' @ concat ?lines
             @ '')\<newline>\<newline>'' @ topics_out ?pr @ funcs_out ?pr"
  let ?out = "''package '' @ Package f @ ''\<newline>''
             @ ''// Code generated by github.com/algorand/msgp DO NOT EDIT.'' @ ''\<newline>''
             @ ''\<newline>'' @ ?rest"
  obtain tests where g: "generate env ord f mode = Inr (?out, tests, None)"
    using assms(2) by (simp add: generate_nonempty [OF assms(1)] Let_def)
  have si: "set ?imps = insert ''github.com/algorand/msgp/msgp'' (importString ` set (Imports f))"
    by (simp add: dedupImports_set)
  have s: "set ?lines = importLine (quote_unicode env)
                       ` insert ''github.com/algorand/msgp/msgp'' (importString ` set (Imports f))"
    by (simp only: set_map si)
  have d: "inj_on (importLine (quote_unicode env))
                  (insert ''github.com/algorand/msgp/msgp'' (importString ` set (Imports f))) \<longrightarrow>
           distinct ?lines"
    using dedupImports_distinct [of ord "''github.com/algorand/msgp/msgp'' # map importString (Imports f)"]
    by (simp only: distinct_map si) simp
  have a: "\<forall>imp \<in> set (Imports f). imp_Path imp \<noteq> [] \<and> last (imp_Path imp) = CHR 0x22 \<longrightarrow>
            importLine (quote_unicode env) (importString imp) =
              [CHR 0x09]
              @ (case imp_Name imp of None \<Rightarrow> imp_Path imp
                 | Some name \<Rightarrow> name @ '' '' @ imp_Path imp)
              @ [CHR 0x0A]"
  proof (intro ballI impI)
    fix imp
    assume "imp \<in> set (Imports f)"
      and l: "imp_Path imp \<noteq> [] \<and> last (imp_Path imp) = CHR 0x22"
    have "last (importString imp) = CHR 0x22"
      using l by (cases "imp_Name imp") (auto simp: importString_def)
    then show "importLine (quote_unicode env) (importString imp) =
              [CHR 0x09]
              @ (case imp_Name imp of None \<Rightarrow> imp_Path imp
                 | Some name \<Rightarrow> name @ '' '' @ imp_Path imp)
              @ [CHR 0x0A]"
      by (simp add: importLine_def importString_def)
  qed
  have o: "CHR ''/'' \<notin> set (Package f) \<and> \<not> sublist ''// Code generated by github.com/algorand/msgp DO NOT EDIT.'' ?rest \<longrightarrow>
           (\<forall>i. take (length ''// Code generated by github.com/algorand/msgp DO NOT EDIT.'') (drop i ?out) = ''// Code generated by github.com/algorand/msgp DO NOT EDIT.''
                 \<longleftrightarrow> i = length (''package '' @ Package f @ ''\<newline>''))"
    using marker_once [of "Package f" ?rest] by blast
  show ?thesis
    by (intro exI [of _ ?out] exI [of _ ?rest] exI [of _ ?lines] exI [of _ tests] conjI
        g refl s d a o importLine_runtime)
qed

lemma sample_imports_nonempty: "\<forall>imp \<in> set (Imports sample_file). importString imp \<noteq> []"
  by (simp add: sample_file_def importString_def)

lemma failing_imports_nonempty: "\<forall>imp \<in> set (Imports failing_file). importString imp \<noteq> []"
  by (simp add: failing_file_def importString_def)

lemma sample_dedup:
  \<open>dedupImports [] (''github.com/algorand/msgp/msgp'' # map importString (Imports sample_file)) =
     [''github.com/algorand/msgp/msgp'', ''"fmt"'']\<close>
  by (simp add: sample_file_def importString_def dedupImports_def)

lemma sample_generate:
  assumes "gen_Test env = 32"
  shows \<open>generate env [] sample_file 32 =
     Inr (''package sample\<newline>// Code generated by github.com/algorand/msgp DO NOT EDIT.\<newline>\<newline>''
          @ ''import (\<newline>'' @ [CHR 0x09] @ ''"github.com/algorand/msgp/msgp"\<newline>''
          @ [CHR 0x09] @ ''"fmt"\<newline>'' @ '')\<newline>\<newline>'' @ ''func Foo() {}'',
          Some (''//go:build !skip_msgp_testing\<newline>// +build !skip_msgp_testing\<newline>\<newline>''
          @ ''package sample\<newline>// Code generated by github.com/algorand/msgp DO NOT EDIT.\<newline>\<newline>''
          @ ''import (\<newline>''
          @ [CHR 0x09] @ ''"github.com/algorand/msgp/msgp"\<newline>''
          @ [CHR 0x09] @ ''"github.com/algorand/go-algorand/protocol"\<newline>''
          @ [CHR 0x09] @ ''"github.com/algorand/go-algorand/test/partitiontest"\<newline>''
          @ [CHR 0x09] @ ''"testing"\<newline>''
          @ '')\<newline>\<newline>''), None)\<close>
proof -
  have 1: "Package sample_file = ''sample''"
    and 2: "PrintTo sample_file 32 True =
             \<lparr>topics_out = [], funcs_out = ''func Foo() {}'', tests_out = [], print_err = None\<rparr>"
    by (simp_all add: sample_file_def)
  show ?thesis
    by (simp add: generate_nonempty [OF sample_imports_nonempty] sample_dedup
        1 2 assms importLine_runtime importLine_quoted Let_def)
qed


lemma generate_fmt_file:
  assumes "gen_Test env = 32" and "Package f = ''sample''"
    and \<open>Imports f = [\<lparr>imp_Name = None, imp_Path = ''"fmt"''\<rparr>]\<close>
    and "PrintTo f 32 True =
           \<lparr>topics_out = [], funcs_out = body, tests_out = [], print_err = None\<rparr>"
  shows \<open>fst (projr (generate env [] f 32)) =
     ''package sample\<newline>// Code generated by github.com/algorand/msgp DO NOT EDIT.\<newline>\<newline>''
     @ ''import (\<newline>'' @ [CHR 0x09] @ ''"github.com/algorand/msgp/msgp"\<newline>''
     @ [CHR 0x09] @ ''"fmt"\<newline>'' @ '')\<newline>\<newline>'' @ body\<close>
proof -
  have n: "\<forall>imp \<in> set (Imports f). importString imp \<noteq> []"
    by (simp add: assms(3) importString_def)
  have d: \<open>dedupImports [] (''github.com/algorand/msgp/msgp'' # map importString (Imports f)) =
           [''github.com/algorand/msgp/msgp'', ''"fmt"'']\<close>
    by (simp add: assms(3) importString_def dedupImports_def)
  show ?thesis
    by (simp add: generate_nonempty [OF n] d assms(1,2,4) importLine_runtime importLine_quoted
        Let_def)
qed

lemma sample_lines_inj:
  "inj_on (importLine (quote_unicode sample_env))
     (insert ''github.com/algorand/msgp/msgp'' (importString ` set (Imports sample_file)))"
proof -
  have 1: \<open>importString ` set (Imports sample_file) = {''"fmt"''}\<close>
    by (simp add: sample_file_def importString_def)
  have 2: \<open>importLine (quote_unicode sample_env) ''"fmt"'' = [CHR 0x09] @ ''"fmt"\<newline>''\<close>
    by (simp add: importLine_quoted)
  show ?thesis
    by (simp only: 1) (simp add: importLine_runtime 2)
qed


theorem generate_implementation_buffer_witness:
  \<open>(\<exists>out rest lines tests.
      generate sample_env [] sample_file 32 = Inr (out, tests, None)
      \<and> out = ''package '' @ Package sample_file @ ''\<newline>''
             @ ''// Code generated by github.com/algorand/msgp DO NOT EDIT.'' @ ''\<newline>''
             @ ''\<newline>''
             @ rest
      \<and> rest = ''import (\<newline>'' @ concat lines @ '')\<newline>\<newline>''
             @ topics_out (PrintTo sample_file 32 (32 AND gen_Test sample_env = gen_Test sample_env))
             @ funcs_out (PrintTo sample_file 32 (32 AND gen_Test sample_env = gen_Test sample_env))
      \<and> set lines = importLine (quote_unicode sample_env)
                       ` insert ''github.com/algorand/msgp/msgp'' (importString ` set (Imports sample_file))
      \<and> (inj_on (importLine (quote_unicode sample_env))
                  (insert ''github.com/algorand/msgp/msgp'' (importString ` set (Imports sample_file))) \<longrightarrow>
           distinct lines)
      \<and> importLine (quote_unicode sample_env) ''github.com/algorand/msgp/msgp'' =
          [CHR 0x09] @ ''"github.com/algorand/msgp/msgp"\<newline>''
      \<and> (\<forall>imp \<in> set (Imports sample_file). imp_Path imp \<noteq> [] \<and> last (imp_Path imp) = CHR 0x22 \<longrightarrow>
            importLine (quote_unicode sample_env) (importString imp) =
              [CHR 0x09]
              @ (case imp_Name imp of None \<Rightarrow> imp_Path imp
                 | Some name \<Rightarrow> name @ '' '' @ imp_Path imp)
              @ [CHR 0x0A])
      \<and> (CHR ''/'' \<notin> set (Package sample_file) \<and> \<not> sublist ''// Code generated by github.com/algorand/msgp DO NOT EDIT.'' rest \<longrightarrow>
           (\<forall>i. take (length ''// Code generated by github.com/algorand/msgp DO NOT EDIT.'') (drop i out) = ''// Code generated by github.com/algorand/msgp DO NOT EDIT.''
                 \<longleftrightarrow> i = length (''package '' @ Package sample_file @ ''\<newline>''))))
   \<and> inj_on (importLine (quote_unicode sample_env))
        (insert ''github.com/algorand/msgp/msgp'' (importString ` set (Imports sample_file)))
   \<and> fst (projr (generate sample_env [] sample_file 32)) =
       ''package sample\<newline>// Code generated by github.com/algorand/msgp DO NOT EDIT.\<newline>\<newline>''
       @ ''import (\<newline>'' @ [CHR 0x09] @ ''"github.com/algorand/msgp/msgp"\<newline>''
       @ [CHR 0x09] @ ''"fmt"\<newline>'' @ '')\<newline>\<newline>'' @ ''func Foo() {}''
   \<and> take (length ''// Code generated by github.com/algorand/msgp DO NOT EDIT.'')
         (drop 15 (fst (projr (generate sample_env [] sample_file 32))))
       = ''// Code generated by github.com/algorand/msgp DO NOT EDIT.''\<close>
proof -
  have ok: "print_err (PrintTo sample_file 32 (32 AND gen_Test sample_env = gen_Test sample_env)) = None"
    by (simp add: sample_file_def)
  have t: "gen_Test sample_env = 32"
    by (simp add: sample_env_def)
  have e: \<open>fst (projr (generate sample_env [] sample_file 32)) =
       ''package sample\<newline>// Code generated by github.com/algorand/msgp DO NOT EDIT.\<newline>\<newline>''
       @ ''import (\<newline>'' @ [CHR 0x09] @ ''"github.com/algorand/msgp/msgp"\<newline>''
       @ [CHR 0x09] @ ''"fmt"\<newline>'' @ '')\<newline>\<newline>'' @ ''func Foo() {}''\<close>
    by (simp add: sample_generate [OF t])
  have k: "take (length ''// Code generated by github.com/algorand/msgp DO NOT EDIT.'')
         (drop 15 (fst (projr (generate sample_env [] sample_file 32))))
       = ''// Code generated by github.com/algorand/msgp DO NOT EDIT.''"
    by (simp only: e) simp
  show ?thesis
    by (intro conjI generate_implementation_buffer [OF sample_imports_nonempty ok]
        sample_lines_inj e k)
qed

text \<open>
  C1 as stated fails: the output of the body generator is appended as it is, so when it
  holds the text of the marker, the marker occurs twice in the implementation buffer,
  after the package clause and in the body.
\<close>

theorem generate_marker_twice_counterexample:
  "print_err (PrintTo marker_in_body_file 32 (32 AND gen_Test sample_env = gen_Test sample_env))
     = None
   \<and> [] \<notin> importString ` set (Imports marker_in_body_file)
   \<and> take (length ''// Code generated by github.com/algorand/msgp DO NOT EDIT.'')
         (drop 15 (fst (projr (generate sample_env [] marker_in_body_file 32))))
       = ''// Code generated by github.com/algorand/msgp DO NOT EDIT.''
   \<and> take (length ''// Code generated by github.com/algorand/msgp DO NOT EDIT.'')
         (drop 127 (fst (projr (generate sample_env [] marker_in_body_file 32))))
       = ''// Code generated by github.com/algorand/msgp DO NOT EDIT.''"
proof -
  have t: "gen_Test sample_env = 32"
    by (simp add: sample_env_def)
  have e: \<open>fst (projr (generate sample_env [] marker_in_body_file 32)) =
     ''package sample\<newline>// Code generated by github.com/algorand/msgp DO NOT EDIT.\<newline>\<newline>''
     @ ''import (\<newline>'' @ [CHR 0x09] @ ''"github.com/algorand/msgp/msgp"\<newline>''
     @ [CHR 0x09] @ ''"fmt"\<newline>'' @ '')\<newline>\<newline>''
     @ ''// Code generated by github.com/algorand/msgp DO NOT EDIT.\<newline>func Foo() {}''\<close>
    by (rule generate_fmt_file [OF t]) (simp_all add: marker_in_body_file_def)
  have 1: "print_err (PrintTo marker_in_body_file 32
             (32 AND gen_Test sample_env = gen_Test sample_env)) = None"
    and 2: "[] \<notin> importString ` set (Imports marker_in_body_file)"
    by (simp_all add: marker_in_body_file_def importString_def)
  have 3: "take (length ''// Code generated by github.com/algorand/msgp DO NOT EDIT.'')
         (drop 15 (fst (projr (generate sample_env [] marker_in_body_file 32))))
       = ''// Code generated by github.com/algorand/msgp DO NOT EDIT.''"
    by (simp only: e) simp
  have 4: "take (length ''// Code generated by github.com/algorand/msgp DO NOT EDIT.'')
         (drop 127 (fst (projr (generate sample_env [] marker_in_body_file 32))))
       = ''// Code generated by github.com/algorand/msgp DO NOT EDIT.''"
    by (simp only: e) simp
  show ?thesis
    by (intro conjI 1 2 3 4)
qed

text \<open>
  The import strings are deduplicated as strings, before they are written. The
  runtime-support import is the path without quotes, and an import of the file
  description is the literal of the source, with its quotes: for a file description that
  declares the runtime-support import the two strings differ, both are kept, and both
  are written as the same line.
\<close>

lemma generate_runtime_import_twice:
  \<open>fst (projr (generate sample_env [] runtime_import_file 32)) =
     ''package sample\<newline>// Code generated by github.com/algorand/msgp DO NOT EDIT.\<newline>\<newline>''
     @ ''import (\<newline>'' @ [CHR 0x09] @ ''"github.com/algorand/msgp/msgp"\<newline>''
     @ [CHR 0x09] @ ''"github.com/algorand/msgp/msgp"\<newline>'' @ '')\<newline>\<newline>''
     @ ''func Foo() {}''\<close>
proof -
  have n: "\<forall>imp \<in> set (Imports runtime_import_file). importString imp \<noteq> []"
    by (simp add: runtime_import_file_def importString_def)
  have d: \<open>dedupImports [] (''github.com/algorand/msgp/msgp'' # map importString (Imports runtime_import_file)) =
           [''github.com/algorand/msgp/msgp'', ''"github.com/algorand/msgp/msgp"'']\<close>
    by (simp add: runtime_import_file_def importString_def dedupImports_def)
  have 1: "Package runtime_import_file = ''sample''"
    and 2: "PrintTo runtime_import_file 32 True =
             \<lparr>topics_out = [], funcs_out = ''func Foo() {}'', tests_out = [], print_err = None\<rparr>"
    and 3: "gen_Test sample_env = 32"
    by (simp_all add: runtime_import_file_def sample_env_def)
  show ?thesis
    by (simp add: generate_nonempty [OF n] d 1 2 3 importLine_runtime importLine_quoted Let_def)
qed

lemma no_occurrence:
  assumes p: "p \<noteq> []" and a: "hd p \<notin> set a" and x: "x \<notin> set p"
    and m: "\<not> sublist p m" and r: "\<not> sublist p (x # r)"
  shows "\<not> sublist p (a @ m @ x # r)"
proof
  let ?s = "a @ m @ x # r"
  assume "sublist p ?s"
  then obtain ps ss where s: "?s = ps @ p @ ss"
    unfolding sublist_def by blast
  let ?i = "length ps"
  have "take (length p) (drop ?i (ps @ p @ ss)) = p"
    by simp
  then have eq: "take (length p) (drop ?i ?s) = p"
    by (simp only: s)
  consider (before) "?i < length a"
    | (within) "length a \<le> ?i" "?i + length p \<le> length a + length m"
    | (across) "length a \<le> ?i" "?i < length a + length m" "length a + length m < ?i + length p"
    | (after) "length a + length m \<le> ?i"
    by linarith
  then show False
  proof cases
    case before
    have i: "?i < length ?s"
      using before by simp
    have "0 < length p"
      using p by simp
    then have "hd (take (length p) (drop ?i ?s)) = hd (drop ?i ?s)"
      by (rule hd_take)
    also have "\<dots> = ?s ! ?i"
      by (rule hd_drop_conv_nth [OF i])
    also have "\<dots> = a ! ?i"
      using before by (simp add: nth_append)
    finally have "hd p = a ! ?i"
      by (simp only: eq)
    with before a show False
      by simp
  next
    case within
    let ?j = "?i - length a"
    have d: "drop ?i ?s = drop ?j m @ x # r"
      using within by simp
    have "take (length p) (drop ?j m @ x # r) = take (length p) (drop ?j m)"
      using within by simp
    then have "take (length p) (drop ?j m) = p"
      using eq unfolding d by simp
    then have "sublist p m"
      by (rule take_drop_sublist)
    with m show False
      by simp
  next
    case across
    let ?j = "?i - length a"
    let ?k = "length m - ?j"
    have k: "?k < length p" "?j \<le> length m"
      using across by simp_all
    have d: "drop ?i ?s = drop ?j m @ x # r"
      using across by simp
    have e2: "take (length p) (drop ?j m @ x # r) = p"
      using eq unfolding d .
    have "p ! ?k = take (length p) (drop ?j m @ x # r) ! ?k"
      by (simp only: e2)
    also have "\<dots> = x"
      using k by (simp add: nth_append)
    finally have "p ! ?k = x" .
    with k(1) x show False
      using nth_mem by metis
  next
    case after
    then have d: "drop ?i ?s = drop (?i - length a - length m) (x # r)"
      by simp
    have "take (length p) (drop (?i - length a - length m) (x # r)) = p"
      using eq unfolding d .
    then have "sublist p (x # r)"
      by (rule take_drop_sublist)
    with r show False
      by simp
  qed
qed

lemma no_build_constraint:
  assumes "p = ''//go:build'' \<or> p = ''// +build''"
    and "CHR ''/'' \<notin> set name" and "\<not> sublist p rest"
  shows "\<not> sublist p (''package '' @ name @ ''\<newline>''
           @ ''// Code generated by github.com/algorand/msgp DO NOT EDIT.\<newline>\<newline>'' @ rest)"
proof -
  let ?m = "''// Code generated by github.com/algorand/msgp DO NOT EDIT.''"
  let ?a = "''package '' @ name @ ''\<newline>''"
  have p: "p \<noteq> []" and h: "hd p = CHR ''/''" and x: "CHR ''\<newline>'' \<notin> set p"
    using assms(1) by auto
  have a: "hd p \<notin> set ?a"
    using assms(2) by (simp only: h) simp
  have m: "\<not> sublist p ?m"
    using assms(1) by (auto simp: sublist_code(3))
  have n: "hd p \<noteq> CHR ''\<newline>''"
    by (simp only: h) simp
  have "\<not> sublist p (CHR ''\<newline>'' # rest)"
    by (rule sublist_skip [OF p n assms(3)])
  then have r: "\<not> sublist p (CHR ''\<newline>'' # CHR ''\<newline>'' # rest)"
    by (rule sublist_skip [OF p n])
  have e: "''package '' @ name @ ''\<newline>''
           @ ''// Code generated by github.com/algorand/msgp DO NOT EDIT.\<newline>\<newline>'' @ rest =
           ?a @ ?m @ CHR ''\<newline>'' # (CHR ''\<newline>'' # rest)"
    by simp
  show ?thesis
    unfolding e by (rule no_occurrence [OF p a x m r])
qed


text \<open>
  C2 (amended). For every file description whose import strings are not empty and every
  mode, \<^verbatim>\<open>generate\<close> returns a test buffer exactly when \<^verbatim>\<open>mode & gen.Test == gen.Test\<close>.
  The test buffer is then the \<^verbatim>\<open>//go:build\<close> line and the \<^verbatim>\<open>// +build\<close> line with the one
  tag \<^verbatim>\<open>!skip_msgp_testing\<close>, a blank line, the package header, and the import block of
  the four fixed imports, whatever the imports of the file description are, followed by
  the test output of the body generator. \<^verbatim>\<open>generate\<close> writes no build constraint to the
  implementation buffer: that buffer is the package header, the import block, whose
  lines are those of the runtime-support import and of the imports of the file
  description, and, when the body generator succeeded, its topic and body output, and
  nothing else. So it starts with the package clause, and, provided the package name
  has no slash, a build-constraint comment occurs in it only if it occurs in the import
  block or in the output of the body generator.
\<close>

theorem generate_test_buffer:
  assumes "\<forall>imp \<in> set (Imports f). importString imp \<noteq> []"
  shows \<open>\<exists>out tests rest lines.
      generate env ord f mode =
        Inr (out, tests, print_err (PrintTo f mode (mode AND gen_Test env = gen_Test env)))
      \<and> (tests \<noteq> None \<longleftrightarrow> mode AND gen_Test env = gen_Test env)
      \<and> (tests \<noteq> None \<longrightarrow>
           tests = Some (''//go:build !skip_msgp_testing\<newline>''
             @ ''// +build !skip_msgp_testing\<newline>''
             @ ''\<newline>''
             @ ''package '' @ Package f @ ''\<newline>''
             @ ''// Code generated by github.com/algorand/msgp DO NOT EDIT.\<newline>\<newline>''
             @ ''import (\<newline>''
             @ [CHR 0x09] @ ''"github.com/algorand/msgp/msgp"\<newline>''
             @ [CHR 0x09] @ ''"github.com/algorand/go-algorand/protocol"\<newline>''
             @ [CHR 0x09] @ ''"github.com/algorand/go-algorand/test/partitiontest"\<newline>''
             @ [CHR 0x09] @ ''"testing"\<newline>''
             @ '')\<newline>\<newline>''
             @ tests_out (PrintTo f mode True)))
      \<and> out = ''package '' @ Package f @ ''\<newline>''
             @ ''// Code generated by github.com/algorand/msgp DO NOT EDIT.\<newline>\<newline>''
             @ rest
      \<and> rest = ''import (\<newline>'' @ concat lines @ '')\<newline>\<newline>''
             @ (if print_err (PrintTo f mode (mode AND gen_Test env = gen_Test env)) = None
                then topics_out (PrintTo f mode (mode AND gen_Test env = gen_Test env))
                     @ funcs_out (PrintTo f mode (mode AND gen_Test env = gen_Test env))
                else [])
      \<and> set lines = importLine (quote_unicode env)
                       ` insert ''github.com/algorand/msgp/msgp'' (importString ` set (Imports f))
      \<and> (inj_on (importLine (quote_unicode env))
                  (insert ''github.com/algorand/msgp/msgp'' (importString ` set (Imports f))) \<longrightarrow>
           distinct lines)
      \<and> prefix ''package '' out
      \<and> \<not> prefix ''//go:build'' out
      \<and> (CHR ''/'' \<notin> set (Package f) \<and> \<not> sublist ''//go:build'' rest \<longrightarrow>
           \<not> sublist ''//go:build'' out)
      \<and> (CHR ''/'' \<notin> set (Package f) \<and> \<not> sublist ''// +build'' rest \<longrightarrow>
           \<not> sublist ''// +build'' out)\<close>
proof -
  let ?t = "mode AND gen_Test env = gen_Test env"
  let ?pr = "PrintTo f mode ?t"
  let ?imps = "dedupImports ord (''github.com/algorand/msgp/msgp'' # map importString (Imports f))"
  let ?lines = "map (importLine (quote_unicode env)) ?imps"
  let ?body = "if print_err ?pr = None then topics_out ?pr @ funcs_out ?pr else []"
  let ?tests = \<open>if ?t then Some (''//go:build !skip_msgp_testing\<newline>''
             @ ''// +build !skip_msgp_testing\<newline>''
             @ ''\<newline>''
             @ ''package '' @ Package f @ ''\<newline>''
             @ ''// Code generated by github.com/algorand/msgp DO NOT EDIT.\<newline>\<newline>''
             @ ''import (\<newline>''
             @ [CHR 0x09] @ ''"github.com/algorand/msgp/msgp"\<newline>''
             @ [CHR 0x09] @ ''"github.com/algorand/go-algorand/protocol"\<newline>''
             @ [CHR 0x09] @ ''"github.com/algorand/go-algorand/test/partitiontest"\<newline>''
             @ [CHR 0x09] @ ''"testing"\<newline>''
             @ '')\<newline>\<newline>''
             @ tests_out (PrintTo f mode True)) else None\<close>
  let ?rest = "''import (\<newline>'' @ concat ?lines @ '')\<newline>\<newline>'' @ ?body"
  let ?out = "''package '' @ Package f @ ''\<newline>''
             @ ''// Code generated by github.com/algorand/msgp DO NOT EDIT.\<newline>\<newline>''
             @ ?rest"
  have g: "generate env ord f mode = Inr (?out, ?tests, print_err ?pr)"
    by (simp add: generate_nonempty [OF assms] Let_def)
  have 1: "?tests \<noteq> None \<longleftrightarrow> ?t"
    by simp
  have 2: \<open>?tests \<noteq> None \<longrightarrow> ?tests = Some (''//go:build !skip_msgp_testing\<newline>''
             @ ''// +build !skip_msgp_testing\<newline>''
             @ ''\<newline>''
             @ ''package '' @ Package f @ ''\<newline>''
             @ ''// Code generated by github.com/algorand/msgp DO NOT EDIT.\<newline>\<newline>''
             @ ''import (\<newline>''
             @ [CHR 0x09] @ ''"github.com/algorand/msgp/msgp"\<newline>''
             @ [CHR 0x09] @ ''"github.com/algorand/go-algorand/protocol"\<newline>''
             @ [CHR 0x09] @ ''"github.com/algorand/go-algorand/test/partitiontest"\<newline>''
             @ [CHR 0x09] @ ''"testing"\<newline>''
             @ '')\<newline>\<newline>''
             @ tests_out (PrintTo f mode True))\<close>
    by simp
  have si: "set ?imps = insert ''github.com/algorand/msgp/msgp'' (importString ` set (Imports f))"
    by (simp add: dedupImports_set)
  have s: "set ?lines = importLine (quote_unicode env)
                       ` insert ''github.com/algorand/msgp/msgp'' (importString ` set (Imports f))"
    by (simp only: set_map si)
  have d: "inj_on (importLine (quote_unicode env))
                  (insert ''github.com/algorand/msgp/msgp'' (importString ` set (Imports f))) \<longrightarrow>
           distinct ?lines"
    using dedupImports_distinct [of ord "''github.com/algorand/msgp/msgp'' # map importString (Imports f)"]
    by (simp only: distinct_map si) simp
  have 4: "prefix ''package '' ?out"
    by simp
  have 5: "\<not> prefix ''//go:build'' ?out"
    by simp
  have 6: "CHR ''/'' \<notin> set (Package f) \<and> \<not> sublist ''//go:build'' ?rest \<longrightarrow>
           \<not> sublist ''//go:build'' ?out"
    using no_build_constraint [of "''//go:build''" "Package f" ?rest] by blast
  have 7: "CHR ''/'' \<notin> set (Package f) \<and> \<not> sublist ''// +build'' ?rest \<longrightarrow>
           \<not> sublist ''// +build'' ?out"
    using no_build_constraint [of "''// +build''" "Package f" ?rest] by blast
  show ?thesis
    by (intro exI [of _ ?out] exI [of _ ?tests] exI [of _ ?rest] exI [of _ ?lines]
        conjI g 1 2 refl s d 4 5 6 7)
qed


theorem generate_test_buffer_witness:
  \<open>(\<exists>out tests rest lines.
      generate sample_env [] sample_file 32 =
        Inr (out, tests, print_err (PrintTo sample_file 32 (32 AND gen_Test sample_env = gen_Test sample_env)))
      \<and> (tests \<noteq> None \<longleftrightarrow> 32 AND gen_Test sample_env = gen_Test sample_env)
      \<and> (tests \<noteq> None \<longrightarrow>
           tests = Some (''//go:build !skip_msgp_testing\<newline>''
             @ ''// +build !skip_msgp_testing\<newline>''
             @ ''\<newline>''
             @ ''package '' @ Package sample_file @ ''\<newline>''
             @ ''// Code generated by github.com/algorand/msgp DO NOT EDIT.\<newline>\<newline>''
             @ ''import (\<newline>''
             @ [CHR 0x09] @ ''"github.com/algorand/msgp/msgp"\<newline>''
             @ [CHR 0x09] @ ''"github.com/algorand/go-algorand/protocol"\<newline>''
             @ [CHR 0x09] @ ''"github.com/algorand/go-algorand/test/partitiontest"\<newline>''
             @ [CHR 0x09] @ ''"testing"\<newline>''
             @ '')\<newline>\<newline>''
             @ tests_out (PrintTo sample_file 32 True)))
      \<and> out = ''package '' @ Package sample_file @ ''\<newline>''
             @ ''// Code generated by github.com/algorand/msgp DO NOT EDIT.\<newline>\<newline>''
             @ rest
      \<and> rest = ''import (\<newline>'' @ concat lines @ '')\<newline>\<newline>''
             @ (if print_err (PrintTo sample_file 32 (32 AND gen_Test sample_env = gen_Test sample_env)) = None
                then topics_out (PrintTo sample_file 32 (32 AND gen_Test sample_env = gen_Test sample_env))
                     @ funcs_out (PrintTo sample_file 32 (32 AND gen_Test sample_env = gen_Test sample_env))
                else [])
      \<and> set lines = importLine (quote_unicode sample_env)
                       ` insert ''github.com/algorand/msgp/msgp'' (importString ` set (Imports sample_file))
      \<and> (inj_on (importLine (quote_unicode sample_env))
                  (insert ''github.com/algorand/msgp/msgp'' (importString ` set (Imports sample_file))) \<longrightarrow>
           distinct lines)
      \<and> prefix ''package '' out
      \<and> \<not> prefix ''//go:build'' out
      \<and> (CHR ''/'' \<notin> set (Package sample_file) \<and> \<not> sublist ''//go:build'' rest \<longrightarrow>
           \<not> sublist ''//go:build'' out)
      \<and> (CHR ''/'' \<notin> set (Package sample_file) \<and> \<not> sublist ''// +build'' rest \<longrightarrow>
           \<not> sublist ''// +build'' out))
   \<and> (\<exists>out tests rest lines.
      generate sample_env [] sample_file 3 =
        Inr (out, tests, print_err (PrintTo sample_file 3 (3 AND gen_Test sample_env = gen_Test sample_env)))
      \<and> (tests \<noteq> None \<longleftrightarrow> 3 AND gen_Test sample_env = gen_Test sample_env)
      \<and> (tests \<noteq> None \<longrightarrow>
           tests = Some (''//go:build !skip_msgp_testing\<newline>''
             @ ''// +build !skip_msgp_testing\<newline>''
             @ ''\<newline>''
             @ ''package '' @ Package sample_file @ ''\<newline>''
             @ ''// Code generated by github.com/algorand/msgp DO NOT EDIT.\<newline>\<newline>''
             @ ''import (\<newline>''
             @ [CHR 0x09] @ ''"github.com/algorand/msgp/msgp"\<newline>''
             @ [CHR 0x09] @ ''"github.com/algorand/go-algorand/protocol"\<newline>''
             @ [CHR 0x09] @ ''"github.com/algorand/go-algorand/test/partitiontest"\<newline>''
             @ [CHR 0x09] @ ''"testing"\<newline>''
             @ '')\<newline>\<newline>''
             @ tests_out (PrintTo sample_file 3 True)))
      \<and> out = ''package '' @ Package sample_file @ ''\<newline>''
             @ ''// Code generated by github.com/algorand/msgp DO NOT EDIT.\<newline>\<newline>''
             @ rest
      \<and> rest = ''import (\<newline>'' @ concat lines @ '')\<newline>\<newline>''
             @ (if print_err (PrintTo sample_file 3 (3 AND gen_Test sample_env = gen_Test sample_env)) = None
                then topics_out (PrintTo sample_file 3 (3 AND gen_Test sample_env = gen_Test sample_env))
                     @ funcs_out (PrintTo sample_file 3 (3 AND gen_Test sample_env = gen_Test sample_env))
                else [])
      \<and> set lines = importLine (quote_unicode sample_env)
                       ` insert ''github.com/algorand/msgp/msgp'' (importString ` set (Imports sample_file))
      \<and> (inj_on (importLine (quote_unicode sample_env))
                  (insert ''github.com/algorand/msgp/msgp'' (importString ` set (Imports sample_file))) \<longrightarrow>
           distinct lines)
      \<and> prefix ''package '' out
      \<and> \<not> prefix ''//go:build'' out
      \<and> (CHR ''/'' \<notin> set (Package sample_file) \<and> \<not> sublist ''//go:build'' rest \<longrightarrow>
           \<not> sublist ''//go:build'' out)
      \<and> (CHR ''/'' \<notin> set (Package sample_file) \<and> \<not> sublist ''// +build'' rest \<longrightarrow>
           \<not> sublist ''// +build'' out))
   \<and> (3::8 word) AND gen_Test sample_env \<noteq> gen_Test sample_env
   \<and> (32::8 word) AND gen_Test sample_env = gen_Test sample_env
   \<and> CHR ''/'' \<notin> set (Package sample_file)
   \<and> \<not> sublist ''//go:build'' (fst (projr (generate sample_env [] sample_file 32)))\<close>
proof -
  have a: "(3::8 word) AND gen_Test sample_env \<noteq> gen_Test sample_env"
    and b: "(32::8 word) AND gen_Test sample_env = gen_Test sample_env"
    and c: "CHR ''/'' \<notin> set (Package sample_file)"
    by (simp_all add: sample_env_def sample_file_def)
  have t: "gen_Test sample_env = 32"
    by (simp add: sample_env_def)
  have e: "\<not> sublist ''//go:build'' (fst (projr (generate sample_env [] sample_file 32)))"
    by (simp add: sample_generate [OF t] sublist_code(3))
  show ?thesis
    by (intro conjI generate_test_buffer [OF sample_imports_nonempty] a b c e)
qed

text \<open>
  C2 as stated fails: the output of the body generator is appended as it is, so when it
  holds the text of the build-constraint header, the header occurs in the implementation
  buffer.
\<close>

theorem generate_build_header_counterexample:
  "print_err (PrintTo build_comment_in_body_file 32
      (32 AND gen_Test sample_env = gen_Test sample_env)) = None
   \<and> [] \<notin> importString ` set (Imports build_comment_in_body_file)
   \<and> writeBuildHeader [] [''!skip_msgp_testing''] =
       ''//go:build !skip_msgp_testing\<newline>// +build !skip_msgp_testing\<newline>\<newline>''
   \<and> sublist (writeBuildHeader [] [''!skip_msgp_testing''])
         (fst (projr (generate sample_env [] build_comment_in_body_file 32)))"
proof -
  have t: "gen_Test sample_env = 32"
    by (simp add: sample_env_def)
  have e: \<open>fst (projr (generate sample_env [] build_comment_in_body_file 32)) =
     ''package sample\<newline>// Code generated by github.com/algorand/msgp DO NOT EDIT.\<newline>\<newline>''
     @ ''import (\<newline>'' @ [CHR 0x09] @ ''"github.com/algorand/msgp/msgp"\<newline>''
     @ [CHR 0x09] @ ''"fmt"\<newline>'' @ '')\<newline>\<newline>''
     @ ''//go:build !skip_msgp_testing\<newline>// +build !skip_msgp_testing\<newline>\<newline>func Foo() {}''\<close>
    by (rule generate_fmt_file [OF t]) (simp_all add: build_comment_in_body_file_def)
  have h: "writeBuildHeader [] [''!skip_msgp_testing''] =
       ''//go:build !skip_msgp_testing\<newline>// +build !skip_msgp_testing\<newline>\<newline>''"
    by (simp add: writeBuildHeader_def WriteString_def)
  have 1: "print_err (PrintTo build_comment_in_body_file 32
      (32 AND gen_Test sample_env = gen_Test sample_env)) = None"
    and 2: "[] \<notin> importString ` set (Imports build_comment_in_body_file)"
    by (simp_all add: build_comment_in_body_file_def importString_def)
  have "take (length (writeBuildHeader [] [''!skip_msgp_testing'']))
          (drop 127 (fst (projr (generate sample_env [] build_comment_in_body_file 32)))) =
        writeBuildHeader [] [''!skip_msgp_testing'']"
    by (simp only: e h) simp
  then have 3: "sublist (writeBuildHeader [] [''!skip_msgp_testing''])
         (fst (projr (generate sample_env [] build_comment_in_body_file 32)))"
    by (rule take_drop_sublist)
  show ?thesis
    by (intro conjI 1 2 h 3)
qed

subsection \<open>format\<close>

lemma WriteFile_events:
  "events (snd (WriteFile env name data perm w)) = events w @ [WriteFileCall name data perm]"
  by (simp add: WriteFile_def Let_def split: option.splits)

lemma WriteFile_fails:
  "write_error env (files w) name = Some e \<Longrightarrow>
   WriteFile env name data perm w =
     (Some e, w\<lparr>events := events w @ [WriteFileCall name data perm]\<rparr>)"
  by (simp add: WriteFile_def Let_def)

lemma WriteFile_succeeds:
  "write_error env (files w) name = None \<Longrightarrow>
   WriteFile env name data perm w =
     (None, w\<lparr>events := events w @ [WriteFileCall name data perm],
              files := (files w)(name \<mapsto>
                (data, case files w name of None \<Rightarrow> perm AND NOT (umask env)
                       | Some (old, mode) \<Rightarrow> mode))\<rparr>)"
  by (simp add: WriteFile_def Let_def)

lemma restricted_0600: "((0x180::32 word) AND NOT m) AND - 385 = 0"
proof -
  have "((0x180::32 word) AND NOT m) AND - 385 = (0x180 AND - 385) AND NOT m"
    by (simp only: ac_simps)
  also have "\<dots> = 0"
    by simp
  finally show ?thesis .
qed

text \<open>
  C5. For every path and byte sequence, \<^verbatim>\<open>format\<close> with \<open>skipFormat\<close> set makes one call
  of the outside world, \<^verbatim>\<open>ioutil.WriteFile(file, data, 0600)\<close>, and returns its result: the
  normaliser and the grouping tool are not called. When the write succeeds the file
  holds exactly the given bytes, and a file created by the call has no permission bit
  outside owner read/write; when the write fails its error is returned and storage is
  as it was.
\<close>

theorem format_skipFormat_verbatim:
  "format env file data True w = WriteFile env file data 0x180 w
   \<and> events (snd (format env file data True w)) = events w @ [WriteFileCall file data 0x180]
   \<and> (write_error env (files w) file = None \<longrightarrow>
        fst (format env file data True w) = None
        \<and> map_option fst (files (snd (format env file data True w)) file) = Some data
        \<and> (\<forall>name. name \<noteq> file \<longrightarrow>
              files (snd (format env file data True w)) name = files w name)
        \<and> (files w file = None \<longrightarrow>
              (\<exists>mode. files (snd (format env file data True w)) file = Some (data, mode)
                 \<and> mode = 0x180 AND NOT (umask env) \<and> mode AND NOT 0x180 = 0)))
   \<and> (\<forall>e. write_error env (files w) file = Some e \<longrightarrow>
        fst (format env file data True w) = Some e
        \<and> files (snd (format env file data True w)) = files w)"
proof -
  have 1: "format env file data True w = WriteFile env file data 0x180 w"
    by (simp add: format_def)
  have 2: "events (snd (format env file data True w)) = events w @ [WriteFileCall file data 0x180]"
    by (simp add: 1 WriteFile_events)
  have 3: "write_error env (files w) file = None \<longrightarrow>
        fst (format env file data True w) = None
        \<and> map_option fst (files (snd (format env file data True w)) file) = Some data
        \<and> (\<forall>name. name \<noteq> file \<longrightarrow>
              files (snd (format env file data True w)) name = files w name)
        \<and> (files w file = None \<longrightarrow>
              (\<exists>mode. files (snd (format env file data True w)) file = Some (data, mode)
                 \<and> mode = 0x180 AND NOT (umask env) \<and> mode AND NOT 0x180 = 0))"
    by (simp add: 1 WriteFile_succeeds restricted_0600)
  have 4: "\<forall>e. write_error env (files w) file = Some e \<longrightarrow>
        fst (format env file data True w) = Some e
        \<and> files (snd (format env file data True w)) = files w"
    by (simp add: 1 WriteFile_fails)
  show ?thesis
    using 1 2 3 4 by blast
qed

theorem format_skipFormat_verbatim_witness:
  "fst (format sample_env ''out.go'' ''package p'' True empty_world) = None
   \<and> files (snd (format sample_env ''out.go'' ''package p'' True empty_world)) ''out.go'' =
       Some (''package p'', 0x180)
   \<and> events (snd (format sample_env ''out.go'' ''package p'' True empty_world)) =
       [WriteFileCall ''out.go'' ''package p'' 0x180]"
proof -
  have h: "write_error sample_env (files empty_world) ''out.go'' = None"
    and f: "files empty_world ''out.go'' = None"
    and u: "(0x180::32 word) AND NOT (umask sample_env) = 0x180"
    and e: "events empty_world = []"
    by (simp_all add: sample_env_def empty_world_def)
  show ?thesis
    using format_skipFormat_verbatim [of sample_env "''out.go''" "''package p''" empty_world] h f u e
    by auto
qed

lemma format_Process_fails:
  assumes "imports_Process env (files w) file data = Inl e"
  shows "format env file data False w = (Some e, w\<lparr>events := events w @ [ProcessCall file data]\<rparr>)"
  using assms by (simp add: format_def Process_def)

lemma format_WriteFile_fails:
  assumes "imports_Process env (files w) file data = Inr out"
    and "write_error env (files w) file = Some e"
  shows "format env file data False w =
    (Some e, w\<lparr>events := events w @ [ProcessCall file data, WriteFileCall file out 0x180]\<rparr>)"
  using assms by (simp add: format_def Process_def WriteFile_def Let_def)

lemma format_grouping:
  assumes "imports_Process env (files w) file data = Inr out"
    and "write_error env (files w) file = None"
  shows "format env file data False w =
    (fst (gci_WriteFormattedFiles env [file] gciConfig
            ((files w)(file \<mapsto> (out, case files w file of None \<Rightarrow> 0x180 AND NOT (umask env)
                                       | Some (old, mode) \<Rightarrow> mode)))),
     w\<lparr>files := snd (gci_WriteFormattedFiles env [file] gciConfig
            ((files w)(file \<mapsto> (out, case files w file of None \<Rightarrow> 0x180 AND NOT (umask env)
                                       | Some (old, mode) \<Rightarrow> mode)))),
       events := events w @ [ProcessCall file data, WriteFileCall file out 0x180,
                             GciCall [file] gciConfig]\<rparr>)"
  using assms
  by (simp add: format_def Process_def WriteFile_def WriteFormattedFiles_def Let_def
      split: prod.splits option.splits)


text \<open>
  C4 (amended). For every path and byte sequence, \<^verbatim>\<open>format\<close> without \<open>skipFormat\<close> first
  calls the import normaliser on the bytes; when that fails, its error is returned
  and nothing is written. Otherwise the output of the normaliser is written to the path
  with \<^verbatim>\<open>ioutil.WriteFile(file, out, 0600)\<close>; when the write fails, its error is returned.
  Otherwise the grouping tool is called on the path alone with the fixed policy: the
  sections standard library, default, prefix \<^verbatim>\<open>github.com/algorand\<close>, prefix
  \<^verbatim>\<open>github.com/algorand/go-algorand\<close>, separated by a new line; \<^verbatim>\<open>format\<close> returns what
  the tool returns and writes nothing after it. So when the grouping stage fails, the
  file on disk is the normalised output as the tool left it: it is the normalised
  output whenever the tool has not changed the file.
\<close>

theorem format_normalise_then_group:
  "(\<forall>e. imports_Process env (files w) file data = Inl e \<longrightarrow>
      format env file data False w =
        (Some e, w\<lparr>events := events w @ [ProcessCall file data]\<rparr>))
   \<and> (\<forall>out e. imports_Process env (files w) file data = Inr out
        \<and> write_error env (files w) file = Some e \<longrightarrow>
      format env file data False w =
        (Some e, w\<lparr>events := events w @ [ProcessCall file data, WriteFileCall file out 0x180]\<rparr>))
   \<and> (\<forall>out. imports_Process env (files w) file data = Inr out
        \<and> write_error env (files w) file = None \<longrightarrow>
      (\<exists>mode st. st = (files w)(file \<mapsto> (out, mode))
         \<and> format env file data False w =
             (fst (gci_WriteFormattedFiles env [file] gciConfig st),
              w\<lparr>files := snd (gci_WriteFormattedFiles env [file] gciConfig st),
                events := events w @ [ProcessCall file data, WriteFileCall file out 0x180,
                                      GciCall [file] gciConfig]\<rparr>)
         \<and> (snd (gci_WriteFormattedFiles env [file] gciConfig st) file = st file \<longrightarrow>
              files (snd (format env file data False w)) file = Some (out, mode))))
   \<and> Sections gciConfig =
        [StandardPackage, DefaultSection, Prefix ''github.com/algorand'',
         Prefix ''github.com/algorand/go-algorand'']
   \<and> SectionSeparators gciConfig = [NewLine]"
proof -
  have 3: "\<forall>out. imports_Process env (files w) file data = Inr out
        \<and> write_error env (files w) file = None \<longrightarrow>
      (\<exists>mode st. st = (files w)(file \<mapsto> (out, mode))
         \<and> format env file data False w =
             (fst (gci_WriteFormattedFiles env [file] gciConfig st),
              w\<lparr>files := snd (gci_WriteFormattedFiles env [file] gciConfig st),
                events := events w @ [ProcessCall file data, WriteFileCall file out 0x180,
                                      GciCall [file] gciConfig]\<rparr>)
         \<and> (snd (gci_WriteFormattedFiles env [file] gciConfig st) file = st file \<longrightarrow>
              files (snd (format env file data False w)) file = Some (out, mode)))"
  proof (intro allI impI)
    fix out
    assume a: "imports_Process env (files w) file data = Inr out
        \<and> write_error env (files w) file = None"
    let ?mode = "case files w file of None \<Rightarrow> 0x180 AND NOT (umask env) | Some (old, mode) \<Rightarrow> mode"
    let ?st = "(files w)(file \<mapsto> (out, ?mode))"
    have f: "format env file data False w =
             (fst (gci_WriteFormattedFiles env [file] gciConfig ?st),
              w\<lparr>files := snd (gci_WriteFormattedFiles env [file] gciConfig ?st),
                events := events w @ [ProcessCall file data, WriteFileCall file out 0x180,
                                      GciCall [file] gciConfig]\<rparr>)"
      using a format_grouping [of env w "file" data out] by simp
    have "snd (gci_WriteFormattedFiles env [file] gciConfig ?st) file = ?st file \<longrightarrow>
              files (snd (format env file data False w)) file = Some (out, ?mode)"
      by (simp add: f)
    with f show "\<exists>mode st. st = (files w)(file \<mapsto> (out, mode))
         \<and> format env file data False w =
             (fst (gci_WriteFormattedFiles env [file] gciConfig st),
              w\<lparr>files := snd (gci_WriteFormattedFiles env [file] gciConfig st),
                events := events w @ [ProcessCall file data, WriteFileCall file out 0x180,
                                      GciCall [file] gciConfig]\<rparr>)
         \<and> (snd (gci_WriteFormattedFiles env [file] gciConfig st) file = st file \<longrightarrow>
              files (snd (format env file data False w)) file = Some (out, mode))"
      by blast
  qed
  show ?thesis
    using format_Process_fails [of env w "file" data] format_WriteFile_fails [of env w "file" data] 3
    by (simp add: gciConfig_def)
qed

theorem format_normalise_then_group_witness:
  "fst (format failing_gci_env ''out.go'' ''package p'' False empty_world) =
     Some (Error ''expected declaration'')
   \<and> files (snd (format failing_gci_env ''out.go'' ''package p'' False empty_world)) ''out.go'' =
       Some (''package p'', 0x180)
   \<and> events (snd (format failing_gci_env ''out.go'' ''package p'' False empty_world)) =
       [ProcessCall ''out.go'' ''package p'', WriteFileCall ''out.go'' ''package p'' 0x180,
        GciCall [''out.go''] gciConfig]"
proof -
  have p: "imports_Process failing_gci_env (files empty_world) ''out.go'' ''package p'' =
           Inr ''package p''
           \<and> write_error failing_gci_env (files empty_world) ''out.go'' = None"
    by (simp add: failing_gci_env_def sample_env_def)
  have g: "\<And>st. gci_WriteFormattedFiles failing_gci_env [''out.go''] gciConfig st =
             (Some (Error ''expected declaration''), st)"
    by (simp add: failing_gci_env_def)
  from format_normalise_then_group
    [of failing_gci_env empty_world "''out.go''" "''package p''"] p
  obtain mode st where st: "st = (files empty_world)(''out.go'' \<mapsto> (''package p'', mode))"
    and f: "format failing_gci_env ''out.go'' ''package p'' False empty_world =
             (fst (gci_WriteFormattedFiles failing_gci_env [''out.go''] gciConfig st),
              empty_world\<lparr>files := snd (gci_WriteFormattedFiles failing_gci_env [''out.go''] gciConfig st),
                events := events empty_world @ [ProcessCall ''out.go'' ''package p'',
                  WriteFileCall ''out.go'' ''package p'' 0x180, GciCall [''out.go''] gciConfig]\<rparr>)"
    by blast
  have e: "files (snd (format failing_gci_env ''out.go'' ''package p'' False empty_world)) ''out.go'' =
       Some (''package p'', 0x180)"
    by (simp add: format_def Process_def WriteFile_def WriteFormattedFiles_def Let_def
        failing_gci_env_def sample_env_def empty_world_def)
  show ?thesis
    using f e by (simp add: g st empty_world_def)
qed

text \<open>
  C4 as stated fails: a grouping tool that fails while it rewrites the file leaves a
  file that is not the output of the normaliser, and \<^verbatim>\<open>format\<close> returns the error of
  the tool without restoring the file.
\<close>

theorem format_grouping_failure_counterexample:
  "imports_Process clobbering_gci_env (files empty_world) ''out.go'' ''package p'' =
     Inr ''package p''
   \<and> fst (format clobbering_gci_env ''out.go'' ''package p'' False empty_world) =
       Some (Error ''no space left on device'')
   \<and> files (snd (format clobbering_gci_env ''out.go'' ''package p'' False empty_world)) ''out.go'' =
       Some ([], 0x180)"
  by (simp add: format_def Process_def WriteFile_def WriteFormattedFiles_def Let_def
      clobbering_gci_env_def sample_env_def empty_world_def)

subsection \<open>PrintFile when the body generator fails\<close>

lemma PrintFile_generate_error:
  assumes "generate env ord f mode = Inr (out, tests, Some e)"
  shows "PrintFile env ord sched file f mode skipFormat w =
    Inr \<lparr>c_world = w, c_chan = [], c_g = GNotStarted, c_m = MReturned RetGenerate (Some e)\<rparr>"
  using assms by (simp add: PrintFile_def)

text \<open>
  C3. For every input on which \<^verbatim>\<open>PrintTo\<close> is reached (no import string is empty) and
  returns an error: \<^verbatim>\<open>generate\<close> returns that error and an implementation buffer that
  holds the package header and the import block only, without topic or body output;
  \<^verbatim>\<open>PrintFile\<close> returns that error at its first return statement, under every schedule,
  before the goroutine is started; it calls nothing of the outside world, so storage is
  as it was, and a path that had no file has none afterwards.
\<close>

theorem PrintFile_generator_error:
  assumes "\<forall>imp \<in> set (Imports f). importString imp \<noteq> []"
    and "print_err (PrintTo f mode (mode AND gen_Test env = gen_Test env)) = Some e"
  shows "\<exists>out tests imps c.
      generate env ord f mode = Inr (out, tests, Some e)
      \<and> out = ''package '' @ Package f @ ''\<newline>''
             @ ''// Code generated by github.com/algorand/msgp DO NOT EDIT.\<newline>\<newline>''
             @ ''import (\<newline>'' @ concat (map (importLine (quote_unicode env)) imps)
             @ '')\<newline>\<newline>''
      \<and> PrintFile env ord sched file f mode skipFormat w = Inr c
      \<and> returned c = Some (Some e)
      \<and> c_m c = MReturned RetGenerate (Some e)
      \<and> c_g c = GNotStarted
      \<and> c_world c = w
      \<and> (\<forall>name. files w name = None \<longrightarrow> files (c_world c) name = None)"
proof -
  let ?t = "mode AND gen_Test env = gen_Test env"
  let ?pr = "PrintTo f mode ?t"
  let ?imps = "dedupImports ord (''github.com/algorand/msgp/msgp'' # map importString (Imports f))"
  let ?out = "''package '' @ Package f @ ''\<newline>''
             @ ''// Code generated by github.com/algorand/msgp DO NOT EDIT.\<newline>\<newline>''
             @ ''import (\<newline>'' @ concat (map (importLine (quote_unicode env)) ?imps)
             @ '')\<newline>\<newline>''"
  obtain tests where g: "generate env ord f mode = Inr (?out, tests, Some e)"
    using assms(2) by (simp add: generate_nonempty [OF assms(1)] Let_def)
  let ?c = "\<lparr>c_world = w, c_chan = [], c_g = GNotStarted, c_m = MReturned RetGenerate (Some e)\<rparr>"
  have p: "PrintFile env ord sched file f mode skipFormat w = Inr ?c"
    by (rule PrintFile_generate_error [OF g])
  have r: "returned ?c = Some (Some e)"
    by (simp add: returned_def)
  show ?thesis
    using g p r by (intro exI [of _ ?out] exI [of _ tests] exI [of _ ?imps] exI [of _ ?c]) simp
qed

theorem PrintFile_generator_error_witness:
  "\<exists>out tests imps c.
      generate sample_env [] failing_file 32 = Inr (out, tests, Some (Error ''unsupported type''))
      \<and> out = ''package '' @ Package failing_file @ ''\<newline>''
             @ ''// Code generated by github.com/algorand/msgp DO NOT EDIT.\<newline>\<newline>''
             @ ''import (\<newline>'' @ concat (map (importLine (quote_unicode sample_env)) imps)
             @ '')\<newline>\<newline>''
      \<and> PrintFile sample_env [] [True, False] ''out.go'' failing_file 32 False empty_world = Inr c
      \<and> returned c = Some (Some (Error ''unsupported type''))
      \<and> c_m c = MReturned RetGenerate (Some (Error ''unsupported type''))
      \<and> c_g c = GNotStarted
      \<and> c_world c = empty_world
      \<and> (\<forall>name. files empty_world name = None \<longrightarrow> files (c_world c) name = None)"
proof -
  have e: "print_err (PrintTo failing_file 32 (32 AND gen_Test sample_env = gen_Test sample_env)) =
           Some (Error ''unsupported type'')"
    by (simp add: failing_file_def)
  show ?thesis
    by (rule PrintFile_generator_error [OF failing_imports_nonempty e])
qed

subsection \<open>The steps of the two threads\<close>

lemma length_TrimSuffix: "length s - length suf \<le> length (TrimSuffix s suf)"
  by (simp add: TrimSuffix_def)

lemma testfile_neq_file: "TrimSuffix file ''.go'' @ ''_test.go'' \<noteq> file"
proof
  assume a: "TrimSuffix file ''.go'' @ ''_test.go'' = file"
  have "length (TrimSuffix file ''.go'' @ ''_test.go'') = length (TrimSuffix file ''.go'') + 8"
    by simp
  then have "length (TrimSuffix file ''.go'') + 8 = length file"
    by (simp only: a)
  then show False
    using length_TrimSuffix [of "file" "''.go''"] by simp
qed


lemma Process_event:
  "Process env p d w = (r, w') \<Longrightarrow> events w' = events w @ [ProcessCall p d]"
  by (auto simp: Process_def)

lemma WriteFile_event:
  "WriteFile env p d m w = (r, w') \<Longrightarrow> events w' = events w @ [WriteFileCall p d m]"
  using WriteFile_events [of env p d m w] by simp

lemma WriteFormattedFiles_event:
  "WriteFormattedFiles env ps cfg w = (r, w') \<Longrightarrow> events w' = events w @ [GciCall ps cfg]"
  by (auto simp: WriteFormattedFiles_def split: prod.splits)

lemma format_step_event:
  assumes "format_step env p d skipFormat pc w = (r, w')"
  shows "\<exists>ev. events w' = events w @ [ev] \<and> event_paths ev = [p]
           \<and> (\<forall>s v. ev \<noteq> InfofCall s v)"
proof (cases pc)
  case FStart
  show ?thesis
  proof (cases skipFormat)
    case True
    obtain r1 w1 where 1: "WriteFile env p d 0x180 w = (r1, w1)"
      by (cases "WriteFile env p d 0x180 w")
    with assms FStart True have "w' = w1"
      by (simp add: format_step_def)
    with WriteFile_event [OF 1] show ?thesis
      by simp
  next
    case False
    obtain r1 w1 where 1: "Process env p d w = (r1, w1)"
      by (cases "Process env p d w")
    with assms FStart False have "w' = w1"
      by (cases r1) (simp_all add: format_step_def)
    with Process_event [OF 1] show ?thesis
      by simp
  qed
next
  case (FProcessed out)
  obtain r1 w1 where 1: "WriteFile env p out 0x180 w = (r1, w1)"
    by (cases "WriteFile env p out 0x180 w")
  with assms FProcessed have "w' = w1"
    by (cases r1) (simp_all add: format_step_def)
  with WriteFile_event [OF 1] show ?thesis
    by simp
next
  case FWritten
  obtain r1 w1 where 1: "WriteFormattedFiles env [p] gciConfig w = (r1, w1)"
    by (cases "WriteFormattedFiles env [p] gciConfig w")
  with assms FWritten have "w' = w1"
    by (cases r1) (simp_all add: format_step_def)
  with WriteFormattedFiles_event [OF 1] show ?thesis
    by simp
qed


lemma step_g_c_m: "c_m (step_g env file data skipFormat c) = c_m c"
  by (simp add: step_g_def split: gpc.splits prod.splits sum.splits)

lemma step_m_c_g: "c_g (step_m env testfile data skipFormat c) = c_g c"
  by (simp add: step_m_def split: mpc.splits prod.splits sum.splits option.splits list.splits)

lemma step_g_inv:
  assumes inv: "run_inv n file testfile c" and neq: "testfile \<noteq> file"
  shows "run_inv n file testfile (step_g env file data skipFormat c)"
proof (cases "c_g c")
  case GNotStarted
  then show ?thesis
    using inv by (simp add: step_g_def)
next
  case (GFormat pc)
  obtain r w' where fs: "format_step env file data skipFormat pc (c_world c) = (r, w')"
    by (cases "format_step env file data skipFormat pc (c_world c)")
  from format_step_event [OF fs] obtain ev where
    ev: "events w' = events (c_world c) @ [ev]" "event_paths ev = [file]"
      "\<forall>s v. ev \<noteq> InfofCall s v"
    by blast
  have s: "step_g env file data skipFormat c =
           c\<lparr>c_world := w', c_g := (case r of Inl res \<Rightarrow> GSend res | Inr pc' \<Rightarrow> GFormat pc')\<rparr>"
    using GFormat fs by (cases r) (simp_all add: step_g_def)
  have g: "(case r of Inl res \<Rightarrow> GSend res | Inr pc' \<Rightarrow> GFormat pc') \<noteq> GInfof"
    "(case r of Inl res \<Rightarrow> GSend res | Inr pc' \<Rightarrow> GFormat pc') \<noteq> GDone"
    by (cases r; simp)+
  show ?thesis
    using inv ev g GFormat unfolding s run_inv_def events_since_def
    by auto
next
  case (GSend r)
  then show ?thesis
    using inv unfolding run_inv_def events_since_def
    by (auto simp: step_g_def)
next
  case GInfof
  then show ?thesis
    using inv neq unfolding run_inv_def events_since_def
    by (auto simp: step_g_def infof_def)
next
  case GDone
  then show ?thesis
    using inv by (simp add: step_g_def)
qed


lemma step_m_inv:
  assumes inv: "run_inv n file testfile c"
  shows "run_inv n file testfile (step_m env testfile data skipFormat c)"
proof (cases "c_m c")
  case (MFormat pc)
  obtain r w' where fs: "format_step env testfile data skipFormat pc (c_world c) = (r, w')"
    by (cases "format_step env testfile data skipFormat pc (c_world c)")
  from format_step_event [OF fs] obtain ev where
    ev: "events w' = events (c_world c) @ [ev]" "event_paths ev = [testfile]"
      "\<forall>s v. ev \<noteq> InfofCall s v"
    by blast
  let ?m = "case r of Inl (Some err) \<Rightarrow> MReturned RetTestFormat (Some err)
            | Inl None \<Rightarrow> MInfof | Inr pc' \<Rightarrow> MFormat pc'"
  have s: "step_m env testfile data skipFormat c = c\<lparr>c_world := w', c_m := ?m\<rparr>"
    using MFormat fs by (simp add: step_m_def split: sum.splits option.splits)
  have m: "\<forall>res. ?m \<noteq> MReturned RetJoin res"
    by (simp split: sum.splits option.splits)
  have i: "InfofCall wrote_fmt [testfile] \<notin> set (drop n (events (c_world c)))"
    using inv MFormat unfolding run_inv_def events_since_def by auto
  show ?thesis
    using inv ev m i MFormat unfolding s run_inv_def events_since_def
    by auto
next
  case MInfof
  then show ?thesis
    using inv unfolding run_inv_def events_since_def
    by (auto simp: step_m_def infof_def)
next
  case MRecv
  show ?thesis
  proof (cases "c_chan c")
    case Nil
    then show ?thesis
      using inv MRecv by (simp add: step_m_def)
  next
    case (Cons err rest)
    then have s: "step_m env testfile data skipFormat c =
                  c\<lparr>c_chan := rest, c_m := MReturned RetJoin err\<rparr>"
      using MRecv by (simp add: step_m_def)
    have "c_g c = GInfof \<or> c_g c = GDone"
      using inv Cons unfolding run_inv_def by auto
    then show ?thesis
      using inv MRecv unfolding s run_inv_def events_since_def by auto
  qed
next
  case (MReturned site err)
  then show ?thesis
    using inv by (simp add: step_m_def)
qed

lemma run_inv_run:
  assumes "run_inv n file testfile c" and "testfile \<noteq> file"
  shows "run_inv n file testfile (run env file out testfile tests skipFormat sched c)"
  using assms(1)
proof (induction sched arbitrary: c)
  case Nil
  then show ?case by (simp add: run_def)
next
  case (Cons caller sched)
  let ?c = "if caller then step_m env testfile tests skipFormat c
            else step_g env file out skipFormat c"
  have "run_inv n file testfile ?c"
    using Cons.prems assms(2) by (simp add: step_m_inv step_g_inv)
  then have "run_inv n file testfile (run env file out testfile tests skipFormat sched ?c)"
    by (rule Cons.IH)
  then show ?case
    by (simp add: run_def)
qed

lemma run_append:
  "run env file out testfile tests skipFormat (s1 @ s2) c =
   run env file out testfile tests skipFormat s2 (run env file out testfile tests skipFormat s1 c)"
  by (simp add: run_def)

lemma run_Cons:
  "run env file out testfile tests skipFormat (caller # s) c =
   run env file out testfile tests skipFormat s
     (if caller then step_m env testfile tests skipFormat c else step_g env file out skipFormat c)"
  by (simp add: run_def)

lemma run_returned:
  assumes "c_m c = MReturned site err"
  shows "c_m (run env file out testfile tests skipFormat sched c) = MReturned site err"
  using assms
proof (induction sched arbitrary: c)
  case Nil
  then show ?case by (simp add: run_def)
next
  case (Cons caller sched)
  have "c_m (if caller then step_m env testfile tests skipFormat c
             else step_g env file out skipFormat c) = MReturned site err"
    using Cons.prems by (simp add: step_g_c_m step_m_def)
  then show ?case
    using Cons.IH by (simp add: run_Cons)
qed

lemma initial_inv:
  "run_inv (length (events w)) file testfile
     \<lparr>c_world = w, c_chan = [], c_g = GFormat FStart, c_m = m\<rparr>"
  by (simp add: run_inv_def events_since_def)

lemma format_steps_format:
  "format_steps 3 env file data skipFormat FStart w = Some (format env file data skipFormat w)"
proof (cases skipFormat)
  case True
  then show ?thesis
    by (simp add: numeral_3_eq_3 format_step_def format_def split: prod.splits)
next
  case False
  obtain r1 w1 where 1: "Process env file data w = (r1, w1)"
    by (cases "Process env file data w")
  show ?thesis
  proof (cases r1)
    case (Inl err)
    then show ?thesis
      using False 1 by (simp add: numeral_3_eq_3 format_step_def format_def)
  next
    case (Inr out)
    obtain r2 w2 where 2: "WriteFile env file out 0x180 w1 = (r2, w2)"
      by (cases "WriteFile env file out 0x180 w1")
    show ?thesis
    proof (cases r2)
      case (Some err)
      then show ?thesis
        using False 1 2 Inr by (simp add: numeral_3_eq_3 format_step_def format_def)
    next
      case None
      obtain r3 w3 where 3: "WriteFormattedFiles env [file] gciConfig w2 = (r3, w3)"
        by (cases "WriteFormattedFiles env [file] gciConfig w2")
      show ?thesis
        using False 1 2 3 Inr None
        by (cases r3) (simp_all add: numeral_3_eq_3 format_step_def format_def)
    qed
  qed
qed

subsection \<open>PrintFile when the body generator succeeds\<close>

lemma PrintFile_tests:
  assumes "generate env ord f mode = Inr (out, Some tests, None)"
  shows "PrintFile env ord sched file f mode skipFormat w =
    Inr (run env file out (TrimSuffix file ''.go'' @ ''_test.go'') tests skipFormat sched
          \<lparr>c_world = w, c_chan = [], c_g = GFormat FStart, c_m = MFormat FStart\<rparr>)"
  using assms by (simp add: PrintFile_def goformat_def)

lemma PrintFile_no_tests:
  assumes "generate env ord f mode = Inr (out, None, None)"
  shows "PrintFile env ord sched file f mode skipFormat w =
    Inr (run env file out [] [] skipFormat sched
          \<lparr>c_world = w, c_chan = [], c_g = GFormat FStart, c_m = MRecv\<rparr>)"
  using assms by (simp add: PrintFile_def goformat_def)

lemma step_m_test_format_fails:
  assumes "c_m c = MFormat pc"
    and "format_step env testfile tests skipFormat pc (c_world c) = (Inl (Some e), w')"
  shows "step_m env testfile tests skipFormat c =
         c\<lparr>c_world := w', c_m := MReturned RetTestFormat (Some e)\<rparr>"
  using assms by (simp add: step_m_def)

text \<open>
  C7. Whenever the caller is formatting the test file and the call of the outside world
  it is about to make fails, so that \<^verbatim>\<open>format\<close> returns an error: at its next step the
  caller returns that error, at the return statement after the test file's \<^verbatim>\<open>format\<close>;
  the step leaves the channel and the goroutine as they are, whatever the goroutine has
  done or will do, so nothing is received. From then on, under every continuation of the
  schedule, \<^verbatim>\<open>PrintFile\<close> has returned that error, the log line of the test file has not
  been emitted, and the result of the goroutine, once sent, stays in the channel.
\<close>

theorem PrintFile_test_format_error:
  assumes "generate env ord f mode = Inr (out, Some tests, None)"
    and "PrintFile env ord pre file f mode skipFormat w = Inr c"
    and "c_m c = MFormat pc"
    and "format_step env (TrimSuffix file ''.go'' @ ''_test.go'') tests skipFormat pc (c_world c) =
           (Inl (Some e), w')"
  shows "PrintFile env ord (pre @ [True]) file f mode skipFormat w =
           Inr (c\<lparr>c_world := w', c_m := MReturned RetTestFormat (Some e)\<rparr>)
     \<and> (\<exists>c'. PrintFile env ord (pre @ True # post) file f mode skipFormat w = Inr c'
          \<and> returned c' = Some (Some e)
          \<and> c_m c' = MReturned RetTestFormat (Some e)
          \<and> InfofCall wrote_fmt [TrimSuffix file ''.go'' @ ''_test.go'']
               \<notin> set (events_since (length (events w)) c')
          \<and> (c_g c' = GInfof \<or> c_g c' = GDone \<longrightarrow> c_chan c' \<noteq> []))"
proof -
  let ?testfile = "TrimSuffix file ''.go'' @ ''_test.go''"
  let ?c0 = "\<lparr>c_world = w, c_chan = [], c_g = GFormat FStart, c_m = MFormat FStart\<rparr>"
  let ?run = "run env file out ?testfile tests skipFormat"
  let ?c1 = "c\<lparr>c_world := w', c_m := MReturned RetTestFormat (Some e)\<rparr>"
  have P: "\<And>sched. PrintFile env ord sched file f mode skipFormat w = Inr (?run sched ?c0)"
    by (rule PrintFile_tests [OF assms(1)])
  have c: "c = ?run pre ?c0"
    using assms(2) by (simp add: P)
  have s: "step_m env ?testfile tests skipFormat c = ?c1"
    by (rule step_m_test_format_fails [OF assms(3,4)])
  have 1: "PrintFile env ord (pre @ [True]) file f mode skipFormat w = Inr ?c1"
    by (simp add: P run_append run_Cons c [symmetric] s) (simp add: run_def)
  let ?c' = "?run post ?c1"
  have 2: "PrintFile env ord (pre @ True # post) file f mode skipFormat w = Inr ?c'"
    by (simp add: P run_append run_Cons c [symmetric] s)
  have m: "c_m ?c' = MReturned RetTestFormat (Some e)"
    by (rule run_returned) simp
  have "run_inv (length (events w)) file ?testfile (?run (pre @ True # post) ?c0)"
    by (rule run_inv_run [OF initial_inv testfile_neq_file])
  then have inv: "run_inv (length (events w)) file ?testfile ?c'"
    by (simp add: run_append run_Cons c [symmetric] s)
  have 3: "InfofCall wrote_fmt [?testfile] \<notin> set (events_since (length (events w)) ?c')"
    using inv m unfolding run_inv_def by auto
  have 4: "c_g ?c' = GInfof \<or> c_g ?c' = GDone \<longrightarrow> c_chan ?c' \<noteq> []"
    using inv m unfolding run_inv_def by auto
  have 5: "returned ?c' = Some (Some e)"
    using m by (simp add: returned_def)
  show ?thesis
    using 1 2 3 4 5 m by blast
qed


lemma testfile_out_go: "TrimSuffix ''out.go'' ''.go'' @ ''_test.go'' = ''out_test.go''"
  by (simp add: TrimSuffix_def HasSuffix_def)

theorem PrintFile_test_format_error_witness:
  "\<exists>c'. PrintFile failing_test_env [] ([False] @ True # [False, False, False, False])
            ''out.go'' sample_file 32 False empty_world = Inr c'
     \<and> returned c' = Some (Some (Error ''expected declaration''))
     \<and> c_m c' = MReturned RetTestFormat (Some (Error ''expected declaration''))
     \<and> InfofCall wrote_fmt [TrimSuffix ''out.go'' ''.go'' @ ''_test.go'']
          \<notin> set (events_since (length (events empty_world)) c')
     \<and> (c_g c' = GInfof \<or> c_g c' = GDone \<longrightarrow> c_chan c' \<noteq> [])"
proof -
  have t: "gen_Test failing_test_env = 32"
    by (simp add: failing_test_env_def sample_env_def)
  obtain out tests where
    gen: "generate failing_test_env [] sample_file 32 = Inr (out, Some tests, None)"
    using sample_generate [OF t] by blast
  let ?c0 = "\<lparr>c_world = empty_world, c_chan = [], c_g = GFormat FStart, c_m = MFormat FStart\<rparr>"
  let ?c = "run failing_test_env ''out.go'' out (TrimSuffix ''out.go'' ''.go'' @ ''_test.go'')
              tests False [False] ?c0"
  have pre: "PrintFile failing_test_env [] [False] ''out.go'' sample_file 32 False empty_world =
             Inr ?c"
    by (rule PrintFile_tests [OF gen])
  have at: "c_m ?c = MFormat FStart"
    by (simp add: run_def step_g_c_m)
  have fails: "format_step failing_test_env (TrimSuffix ''out.go'' ''.go'' @ ''_test.go'') tests
                 False FStart (c_world ?c) =
               (Inl (Some (Error ''expected declaration'')),
                (c_world ?c)\<lparr>events := events (c_world ?c)
                   @ [ProcessCall ''out_test.go'' tests]\<rparr>)"
    by (simp add: testfile_out_go format_step_def Process_def failing_test_env_def)
  show ?thesis
    using PrintFile_test_format_error [OF gen pre at fails, of "[False, False, False, False]"]
    by blast
qed

lemma sample_generate_no_tests:
  assumes "gen_Test env = 32"
  shows "\<exists>out. generate env [] sample_file 0 = Inr (out, None, None)"
proof -
  have "print_err (PrintTo sample_file 0 (0 AND gen_Test env = gen_Test env)) = None"
    by (simp add: sample_file_def)
  then show ?thesis
    using assms by (simp add: generate_nonempty [OF sample_imports_nonempty] Let_def)
qed

text \<open>
  C8 at a failing input: storage refuses to open \<^verbatim>\<open>out.go\<close>, formatting is skipped and
  no test file is asked for. The goroutine's \<^verbatim>\<open>format\<close> fails, it sends the error, and
  then logs that the file was written and formatted; the caller returns the error. No
  file exists, and the log says \<^verbatim>\<open>Wrote and formatted "out.go"\<close>.
\<close>

theorem goformat_logs_after_failure:
  "\<exists>c out. PrintFile read_only_env [] [False, False, False, True] ''out.go'' sample_file 0 True
             empty_world = Inr c
     \<and> returned c = Some (Some (Error ''permission denied''))
     \<and> files (c_world c) ''out.go'' = None
     \<and> events (c_world c) =
          [WriteFileCall ''out.go'' out 0x180, InfofCall wrote_fmt [''out.go'']]"
proof -
  have t: "gen_Test read_only_env = 32"
    by (simp add: read_only_env_def sample_env_def)
  obtain out where gen: "generate read_only_env [] sample_file 0 = Inr (out, None, None)"
    using sample_generate_no_tests [OF t] by blast
  let ?c0 = "\<lparr>c_world = empty_world, c_chan = [], c_g = GFormat FStart, c_m = MRecv\<rparr>"
  let ?w1 = "empty_world\<lparr>events := [WriteFileCall ''out.go'' out 0x180]\<rparr>"
  have f: "format_step read_only_env ''out.go'' out True FStart empty_world =
           (Inl (Some (Error ''permission denied'')), ?w1)"
    by (simp add: format_step_def WriteFile_def read_only_env_def Let_def empty_world_def)
  have 1: "step_g read_only_env ''out.go'' out True ?c0 =
           ?c0\<lparr>c_world := ?w1, c_g := GSend (Some (Error ''permission denied''))\<rparr>"
    by (simp add: step_g_def f)
  have 2: "step_g read_only_env ''out.go'' out True
             (?c0\<lparr>c_world := ?w1, c_g := GSend (Some (Error ''permission denied''))\<rparr>) =
           ?c0\<lparr>c_world := ?w1, c_chan := [Some (Error ''permission denied'')], c_g := GInfof\<rparr>"
    by (simp add: step_g_def)
  let ?w2 = "empty_world\<lparr>events := [WriteFileCall ''out.go'' out 0x180,
                                      InfofCall wrote_fmt [''out.go'']]\<rparr>"
  have 3: "step_g read_only_env ''out.go'' out True
             (?c0\<lparr>c_world := ?w1, c_chan := [Some (Error ''permission denied'')], c_g := GInfof\<rparr>) =
           ?c0\<lparr>c_world := ?w2, c_chan := [Some (Error ''permission denied'')], c_g := GDone\<rparr>"
    by (simp add: step_g_def infof_def)
  have 4: "step_m read_only_env [] [] True
             (?c0\<lparr>c_world := ?w2, c_chan := [Some (Error ''permission denied'')], c_g := GDone\<rparr>) =
           ?c0\<lparr>c_world := ?w2, c_chan := [], c_g := GDone,
                c_m := MReturned RetJoin (Some (Error ''permission denied''))\<rparr>"
    by (simp add: step_m_def)
  have r: "run read_only_env ''out.go'' out [] [] True [False, False, False, True] ?c0 =
           ?c0\<lparr>c_world := ?w2, c_chan := [], c_g := GDone,
                c_m := MReturned RetJoin (Some (Error ''permission denied''))\<rparr>"
    by (simp only: run_Cons if_False if_True 1 2 3 4) (simp add: run_def)
  have p: "PrintFile read_only_env [] [False, False, False, True] ''out.go'' sample_file 0 True
             empty_world =
           Inr (?c0\<lparr>c_world := ?w2, c_chan := [], c_g := GDone,
                c_m := MReturned RetJoin (Some (Error ''permission denied''))\<rparr>)"
    by (simp only: PrintFile_no_tests [OF gen] r)
  let ?c = "?c0\<lparr>c_world := ?w2, c_chan := [], c_g := GDone,
                c_m := MReturned RetJoin (Some (Error ''permission denied''))\<rparr>"
  have "returned ?c = Some (Some (Error ''permission denied''))"
    and "files (c_world ?c) ''out.go'' = None"
    and "events (c_world ?c) = [WriteFileCall ''out.go'' out 0x180, InfofCall wrote_fmt [''out.go'']]"
    by (simp_all add: returned_def empty_world_def)
  with p show ?thesis
    by blast
qed

subsection \<open>The path of the test file\<close>














subsection \<open>Under a fair schedule PrintFile returns\<close>

text \<open>
  Each step of a thread that is not blocked brings it nearer to its end, the goroutine
  is never blocked on its send, and the caller is blocked on its receive only until the
  goroutine has sent. So a schedule that gives the goroutine four steps and then the
  caller five makes \<^verbatim>\<open>PrintFile\<close> return, whatever follows.
\<close>

lemma format_step_left:
  assumes "format_step env p d skipFormat pc w = (Inr pc', w')"
  shows "fpc_left pc' < fpc_left pc"
  using assms
  by (cases pc)
     (auto simp: format_step_def split: if_splits prod.splits sum.splits option.splits)

lemma fpc_left_pos: "0 < fpc_left pc"
  by (cases pc) simp_all

lemma m_left_bound: "m_left m \<le> 5"
proof (cases m)
  case (MFormat pc)
  then show ?thesis
    by (cases pc) simp_all
qed simp_all

lemma step_g_left:
  assumes "run_inv n file testfile c"
  shows "g_left (c_g (step_g env file data skipFormat c)) \<le> g_left (c_g c) - 1"
proof (cases "c_g c")
  case (GFormat pc)
  obtain r w' where fs: "format_step env file data skipFormat pc (c_world c) = (r, w')"
    by (cases "format_step env file data skipFormat pc (c_world c)")
  show ?thesis
  proof (cases r)
    case (Inl res)
    then show ?thesis
      using GFormat fs fpc_left_pos [of pc] by (simp add: step_g_def)
  next
    case (Inr pc')
    then have "fpc_left pc' < fpc_left pc"
      using format_step_left fs by blast
    then show ?thesis
      using GFormat fs Inr by (simp add: step_g_def)
  qed
next
  case (GSend r)
  then have "c_chan c = []"
    using assms by (simp add: run_inv_def)
  then show ?thesis
    using GSend by (simp add: step_g_def)
qed (simp_all add: step_g_def)

lemma step_m_left:
  assumes "c_g c = GInfof \<or> c_g c = GDone" and "run_inv n file testfile c"
  shows "m_left (c_m (step_m env testfile data skipFormat c)) \<le> m_left (c_m c) - 1"
proof (cases "c_m c")
  case (MFormat pc)
  obtain r w' where fs: "format_step env testfile data skipFormat pc (c_world c) = (r, w')"
    by (cases "format_step env testfile data skipFormat pc (c_world c)")
  show ?thesis
  proof (cases r)
    case (Inl res)
    then show ?thesis
      using MFormat fs fpc_left_pos [of pc] by (cases res) (simp_all add: step_m_def)
  next
    case (Inr pc')
    then have "fpc_left pc' < fpc_left pc"
      using format_step_left fs by blast
    then show ?thesis
      using MFormat fs Inr by (simp add: step_m_def)
  qed
next
  case MRecv
  then have "c_chan c \<noteq> []"
    using assms by (auto simp: run_inv_def)
  then show ?thesis
    using MRecv by (cases "c_chan c") (simp_all add: step_m_def)
qed (simp_all add: step_m_def)

lemma run_goroutine_left:
  assumes "run_inv n file testfile c" and "testfile \<noteq> file"
  shows "g_left (c_g (run env file out testfile tests skipFormat (replicate k False) c))
         \<le> g_left (c_g c) - k"
  using assms(1)
proof (induction k arbitrary: c)
  case 0
  then show ?case by (simp add: run_def)
next
  case (Suc k)
  let ?c = "step_g env file out skipFormat c"
  have i: "run_inv n file testfile ?c"
    by (rule step_g_inv [OF Suc.prems assms(2)])
  have "g_left (c_g (run env file out testfile tests skipFormat (replicate k False) ?c))
        \<le> g_left (c_g ?c) - k"
    by (rule Suc.IH [OF i])
  moreover have "g_left (c_g ?c) \<le> g_left (c_g c) - 1"
    by (rule step_g_left [OF Suc.prems])
  ultimately show ?case
    by (simp add: run_Cons)
qed

lemma run_caller_left:
  assumes "c_g c = GInfof \<or> c_g c = GDone" and "run_inv n file testfile c"
  shows "m_left (c_m (run env file out testfile tests skipFormat (replicate k True) c))
         \<le> m_left (c_m c) - k"
  using assms
proof (induction k arbitrary: c)
  case 0
  then show ?case by (simp add: run_def)
next
  case (Suc k)
  let ?c = "step_m env testfile tests skipFormat c"
  have i: "run_inv n file testfile ?c"
    by (rule step_m_inv [OF Suc.prems(2)])
  have g: "c_g ?c = GInfof \<or> c_g ?c = GDone"
    using Suc.prems(1) by (simp add: step_m_c_g)
  have "m_left (c_m (run env file out testfile tests skipFormat (replicate k True) ?c))
        \<le> m_left (c_m ?c) - k"
    by (rule Suc.IH [OF g i])
  moreover have "m_left (c_m ?c) \<le> m_left (c_m c) - 1"
    by (rule step_m_left [OF Suc.prems])
  ultimately show ?case
    by (simp add: run_Cons)
qed

lemma g_left_sent: "g_left g \<le> 1 \<Longrightarrow> g \<noteq> GNotStarted \<Longrightarrow> g = GInfof \<or> g = GDone"
  by (cases g) simp_all

lemma m_left_returned: "m_left m = 0 \<Longrightarrow> \<exists>site err. m = MReturned site err"
  by (cases m) simp_all

lemma step_g_started: "c_g c \<noteq> GNotStarted \<Longrightarrow> c_g (step_g env file data skipFormat c) \<noteq> GNotStarted"
  by (cases "c_g c") (auto simp: step_g_def split: prod.splits sum.splits)

lemma run_goroutine_started:
  "c_g c \<noteq> GNotStarted \<Longrightarrow>
   c_g (run env file out testfile tests skipFormat (replicate k False) c) \<noteq> GNotStarted"
proof (induction k arbitrary: c)
  case 0
  then show ?case by (simp add: run_def)
next
  case (Suc k)
  then show ?case
    using step_g_started [of c env "file" out skipFormat] by (simp add: run_Cons)
qed

lemma run_fair_returns:
  assumes "run_inv n file testfile c" and "testfile \<noteq> file"
    and "c_g c = GFormat FStart"
  shows "\<exists>site err. c_m (run env file out testfile tests skipFormat
                          (replicate 4 False @ replicate 5 True @ rest) c) = MReturned site err"
proof -
  let ?run = "run env file out testfile tests skipFormat"
  let ?c1 = "?run (replicate 4 False) c"
  have "g_left (c_g ?c1) \<le> g_left (c_g c) - 4"
    by (rule run_goroutine_left [OF assms(1,2)])
  then have "g_left (c_g ?c1) \<le> 1"
    using assms(3) by simp
  moreover have "c_g ?c1 \<noteq> GNotStarted"
    using assms(3) by (intro run_goroutine_started) simp
  ultimately have g: "c_g ?c1 = GInfof \<or> c_g ?c1 = GDone"
    by (rule g_left_sent)
  have i1: "run_inv n file testfile ?c1"
    by (rule run_inv_run [OF assms(1,2)])
  let ?c2 = "?run (replicate 5 True) ?c1"
  have "m_left (c_m ?c2) \<le> m_left (c_m ?c1) - 5"
    by (rule run_caller_left [OF g i1])
  moreover have "m_left (c_m ?c1) \<le> 5"
    by (rule m_left_bound)
  ultimately have "m_left (c_m ?c2) = 0"
    by simp
  then obtain site err where "c_m ?c2 = MReturned site err"
    using m_left_returned by blast
  then have "c_m (?run rest ?c2) = MReturned site err"
    by (rule run_returned)
  then show ?thesis
    by (simp add: run_append)
qed


lemma step_m_receiving:
  assumes "c_m c = MRecv \<or> (\<exists>site err. c_m c = MReturned site err)"
  shows "step_m env testfile tests skipFormat c = step_m env testfile' tests' skipFormat c
         \<and> (c_m (step_m env testfile tests skipFormat c) = MRecv
              \<or> (\<exists>site err. c_m (step_m env testfile tests skipFormat c) = MReturned site err))"
  using assms by (auto simp: step_m_def split: list.splits)

lemma run_receiving:
  assumes "c_m c = MRecv \<or> (\<exists>site err. c_m c = MReturned site err)"
  shows "run env file out testfile tests skipFormat sched c =
         run env file out testfile' tests' skipFormat sched c"
  using assms
proof (induction sched arbitrary: c)
  case Nil
  then show ?case by (simp add: run_def)
next
  case (Cons caller sched)
  show ?case
  proof (cases caller)
    case True
    let ?c = "step_m env testfile tests skipFormat c"
    have e: "?c = step_m env testfile' tests' skipFormat c"
      and m: "c_m ?c = MRecv \<or> (\<exists>site err. c_m ?c = MReturned site err)"
      using step_m_receiving [OF Cons.prems] by blast+
    show ?thesis
      using True Cons.IH [OF m] by (simp add: run_Cons e [symmetric])
  next
    case False
    let ?c = "step_g env file out skipFormat c"
    have "c_m ?c = MRecv \<or> (\<exists>site err. c_m ?c = MReturned site err)"
      using Cons.prems by (simp add: step_g_c_m)
    then show ?thesis
      using False Cons.IH by (simp add: run_Cons)
  qed
qed

lemma returned_MReturned: "c_m c = MReturned site r \<Longrightarrow> returned c = Some r"
  by (simp add: returned_def)

lemma PrintFile_returns:
  assumes "generate env ord f mode = Inr (out, tests, err)"
  shows "\<exists>c r. PrintFile env ord (replicate 4 False @ replicate 5 True @ rest) file f mode
                 skipFormat w = Inr c
           \<and> returned c = Some r"
proof (cases err)
  case (Some e)
  then show ?thesis
    using PrintFile_generate_error [of env ord f mode out tests e] assms
    by (simp add: returned_def)
next
  case None
  let ?sched = "replicate 4 False @ replicate 5 True @ rest"
  let ?testfile = "TrimSuffix file ''.go'' @ ''_test.go''"
  show ?thesis
  proof (cases tests)
    case (Some t)
    let ?init = "\<lparr>c_world = w, c_chan = [], c_g = GFormat FStart, c_m = MFormat FStart\<rparr>"
    have p: "PrintFile env ord ?sched file f mode skipFormat w =
             Inr (run env file out ?testfile t skipFormat ?sched ?init)"
      using assms None Some by (intro PrintFile_tests) simp
    have "\<exists>site r. c_m (run env file out ?testfile t skipFormat ?sched ?init) = MReturned site r"
      by (rule run_fair_returns [OF initial_inv testfile_neq_file]) simp
    then show ?thesis
      using p returned_MReturned by blast
  next
    case no_tests: None
    let ?init = "\<lparr>c_world = w, c_chan = [], c_g = GFormat FStart, c_m = MRecv\<rparr>"
    have p: "PrintFile env ord ?sched file f mode skipFormat w =
             Inr (run env file out [] [] skipFormat ?sched ?init)"
      using assms None no_tests by (intro PrintFile_no_tests) simp
    have e: "run env file out [] [] skipFormat ?sched ?init =
             run env file out ?testfile [] skipFormat ?sched ?init"
      by (rule run_receiving) simp
    have "\<exists>site r. c_m (run env file out ?testfile [] skipFormat ?sched ?init) = MReturned site r"
      by (rule run_fair_returns [OF initial_inv testfile_neq_file]) simp
    then show ?thesis
      using p returned_MReturned unfolding e by blast
  qed
qed

end
